theory Spec2Isabelle
  imports Main "HOL-Library.AList" "HOL-Library.Sublist"
begin

section \<open>Python values and exceptions\<close>

text \<open>
  The embedding covers \<^verbatim>\<open>src/a2a_azure/host_agent.py\<close> (the Remote Agent Proxy
  \<^verbatim>\<open>DynamicAgentTool\<close>, the tool factory and \<^verbatim>\<open>HostAgent\<close>) and
  \<^verbatim>\<open>src/a2a_azure/agent.py\<close> (the Worker \<^verbatim>\<open>Agent\<close>).

  An exception is a value: its class and the text \<^verbatim>\<open>str(e)\<close> gives. Every class below
  derives from \<^verbatim>\<open>Exception\<close>; \<^verbatim>\<open>LibraryError c\<close> stands for any other subclass of
  \<^verbatim>\<open>Exception\<close> raised inside a library call, named by its class. Exceptions outside
  \<^verbatim>\<open>Exception\<close> (task cancellation, keyboard interrupt) are not part of the model.
\<close>

datatype exc_class =
    ReadTimeout | ValueError | RuntimeError | KeyError | TypeError | AttributeError | IndexError
  | LibraryError string

datatype py_exception = PyExc (exc_class: exc_class) (exc_str: string)

text \<open>What an awaited library call does: it raises or it returns.\<close>

datatype 'a outcome = Raises py_exception | Returns 'a

text \<open>Sequencing of fallible steps: the first exception ends the computation.\<close>

definition and_then :: "py_exception + 'a \<Rightarrow> ('a \<Rightarrow> py_exception + 'b) \<Rightarrow> py_exception + 'b" where
  "and_then m f = (case m of Inl e \<Rightarrow> Inl e | Inr x \<Rightarrow> f x)"

text \<open>
  The value \<^verbatim>\<open>response.model_dump(mode='json', exclude_none=True)\<close> is a Python dict
  of JSON data. \<^verbatim>\<open>JNum\<close> stands for any JSON number: the operations used by the source
  treat every number alike.
\<close>

datatype json =
    JNull | JBool bool | JNum int | JStr string | JList "json list" | JDict "(string \<times> json) list"

definition squote :: string where
  "squote = [CHR 0x27]"

fun py_type_name :: "json \<Rightarrow> string" where
  "py_type_name JNull = ''NoneType''"
| "py_type_name (JBool b) = ''bool''"
| "py_type_name (JNum n) = ''int''"
| "py_type_name (JStr s) = ''str''"
| "py_type_name (JList xs) = ''list''"
| "py_type_name (JDict d) = ''dict''"

text \<open>
  \<^verbatim>\<open>k in v\<close> for a string \<^verbatim>\<open>k\<close>: key membership in a dict, element membership in a
  list, substring test in a string, \<^verbatim>\<open>TypeError\<close> otherwise.
\<close>

fun py_in :: "string \<Rightarrow> json \<Rightarrow> py_exception + bool" where
  "py_in k (JDict d) = Inr (map_of d k \<noteq> None)"
| "py_in k (JList xs) = Inr (JStr k \<in> set xs)"
| "py_in k (JStr s) = Inr (sublist k s)"
| "py_in k v = Inl (PyExc TypeError
     (''argument of type '' @ squote @ py_type_name v @ squote @ '' is not iterable''))"

text \<open>
  \<^verbatim>\<open>v[k]\<close> for a string key \<^verbatim>\<open>k\<close>. The text of the \<^verbatim>\<open>KeyError\<close> is
  \<^verbatim>\<open>repr(k)\<close>, which for the keys the source uses (plain identifiers) is the key in
  single quotes.
\<close>

fun py_getitem :: "json \<Rightarrow> string \<Rightarrow> py_exception + json" where
  "py_getitem (JDict d) k =
     (case map_of d k of
        Some v \<Rightarrow> Inr v
      | None \<Rightarrow> Inl (PyExc KeyError (squote @ k @ squote)))"
| "py_getitem (JList xs) k =
     Inl (PyExc TypeError ''list indices must be integers or slices, not str'')"
| "py_getitem (JStr s) k =
     Inl (PyExc TypeError (''string indices must be integers, not '' @ squote @ ''str'' @ squote))"
| "py_getitem v k =
     Inl (PyExc TypeError (squote @ py_type_name v @ squote @ '' object is not subscriptable''))"

text \<open>
  \<^verbatim>\<open>v[0]\<close>. The keys of a JSON dict are strings, so the integer \<^verbatim>\<open>0\<close> is never a key.
\<close>

fun py_getitem0 :: "json \<Rightarrow> py_exception + json" where
  "py_getitem0 (JList []) = Inl (PyExc IndexError ''list index out of range'')"
| "py_getitem0 (JList (x # xs)) = Inr x"
| "py_getitem0 (JStr []) = Inl (PyExc IndexError ''string index out of range'')"
| "py_getitem0 (JStr (c # cs)) = Inr (JStr [c])"
| "py_getitem0 (JDict d) = Inl (PyExc KeyError ''0'')"
| "py_getitem0 v =
     Inl (PyExc TypeError (squote @ py_type_name v @ squote @ '' object is not subscriptable''))"

fun py_len :: "json \<Rightarrow> py_exception + nat" where
  "py_len (JDict d) = Inr (length d)"
| "py_len (JList xs) = Inr (length xs)"
| "py_len (JStr s) = Inr (length s)"
| "py_len v = Inl (PyExc TypeError
     (''object of type '' @ squote @ py_type_name v @ squote @ '' has no len()''))"

text \<open>\<^verbatim>\<open>v.get(k, default)\<close>: only a dict has the method.\<close>

fun py_get :: "json \<Rightarrow> string \<Rightarrow> json \<Rightarrow> py_exception + json" where
  "py_get (JDict d) k dflt = Inr (case map_of d k of Some v \<Rightarrow> v | None \<Rightarrow> dflt)"
| "py_get v k dflt = Inl (PyExc AttributeError
     (squote @ py_type_name v @ squote @ '' object has no attribute '' @ squote @ ''get'' @ squote))"

text \<open>
  A value inside an f-string: a string is inserted as it is; for any other value the
  text is what Python's \<^verbatim>\<open>str\<close> gives, taken as the parameter \<open>py_str\<close>.
\<close>

definition fstring_value :: "(json \<Rightarrow> string) \<Rightarrow> json \<Rightarrow> string" where
  "fstring_value py_str v = (case v of JStr s \<Rightarrow> s | _ \<Rightarrow> py_str v)"


section \<open>The Remote Agent Proxy\<close>

text \<open>
  \<^verbatim>\<open>create_agent_tool_class\<close> builds a class whose instances hold the four arguments;
  the class carries its name and the metadata the \<^verbatim>\<open>kernel_function\<close> decorator
  attaches to \<^verbatim>\<open>_send_to_agent\<close>, which is what the function-calling mechanism sees.
\<close>

record agent_tool =
  class_name :: string
  kernel_function_name :: string
  kernel_function_description :: string
  agent_url :: string
  agent_name :: string
  agent_description :: string
  function_name :: string

definition is_alnum :: "char \<Rightarrow> bool" where
  "is_alnum c \<longleftrightarrow>
     (let n = (of_char c :: nat)
      in (48 \<le> n \<and> n \<le> 57) \<or> (65 \<le> n \<and> n \<le> 90) \<or> (97 \<le> n \<and> n \<le> 122))"

text \<open>
  An instance of the class that \<^verbatim>\<open>create_agent_tool_class\<close> builds: the class name is
  \<^verbatim>\<open>re.sub(r'[^0-9A-Za-z]', '', agent_name) + 'Tool'\<close>.
\<close>

definition DynamicAgentTool :: "string \<Rightarrow> string \<Rightarrow> string \<Rightarrow> string \<Rightarrow> agent_tool" where
  "DynamicAgentTool a_name a_url a_description f_name =
     \<lparr> class_name = filter is_alnum a_name @ ''Tool'',
       kernel_function_name = f_name,
       kernel_function_description = ''Send a request to '' @ a_name @ '': '' @ a_description,
       agent_url = a_url,
       agent_name = a_name,
       agent_description = a_description,
       function_name = f_name \<rparr>"

text \<open>
  Line 108 stores the decorated function as a class attribute under the name
  \<^verbatim>\<open>function_name\<close>, and the caller then instantiates the class. A name of the form
  \<^verbatim>\<open>__x__\<close> can be one that Python itself uses on the class:
  \<^item> as \<^verbatim>\<open>__init__\<close> or \<^verbatim>\<open>__new__\<close> the function replaces the constructor, which
    \<^verbatim>\<open>tool_class()\<close> calls without \<^verbatim>\<open>user_input\<close>;
  \<^item> as \<^verbatim>\<open>__setattr__\<close> it is called by the first assignment in \<^verbatim>\<open>__init__\<close>, with
    one argument too many;
  \<^item> for any other name of this form, what the interpreter does is the parameter
    \<open>special\<close> (\<open>None\<close> when nothing is raised).
  A name of any other form is an ordinary attribute, and nothing is raised.
\<close>

definition is_special_name :: "string \<Rightarrow> bool" where
  "is_special_name f \<longleftrightarrow> prefix ''__'' f \<and> suffix ''__'' f"

definition send_to_agent_qualname :: string where
  "send_to_agent_qualname = ''create_agent_tool_class.<locals>.DynamicAgentTool._send_to_agent''"

definition instantiate_error :: "(string \<Rightarrow> py_exception option) \<Rightarrow> string \<Rightarrow> py_exception option" where
  "instantiate_error special f =
     (if f = ''__init__'' \<or> f = ''__new__''
      then Some (PyExc TypeError (send_to_agent_qualname
             @ ''() missing 1 required positional argument: '' @ squote @ ''user_input'' @ squote))
      else if f = ''__setattr__''
      then Some (PyExc TypeError (send_to_agent_qualname
             @ ''() takes 2 positional arguments but 3 were given''))
      else if is_special_name f then special f
      else None)"

text \<open>
  \<^verbatim>\<open>create_agent_tool_class(...)\<close> followed by \<^verbatim>\<open>tool_class()\<close>, as the constructor
  (lines 154 to 160) and \<^verbatim>\<open>add_agent_endpoint\<close> (lines 242 to 249) call them: the
  instance, or the exception that leaves the two statements.
\<close>

definition create_agent_tool_class :: "(string \<Rightarrow> py_exception option) \<Rightarrow> string \<Rightarrow> string \<Rightarrow> string \<Rightarrow> string \<Rightarrow> py_exception + agent_tool" where
  "create_agent_tool_class special a_name a_url a_description f_name =
     (case instantiate_error special f_name of
        Some e \<Rightarrow> Inl e
      | None \<Rightarrow> Inr (DynamicAgentTool a_name a_url a_description f_name))"

text \<open>
  The remote side of one call. Discovery (\<^verbatim>\<open>A2ACardResolver.get_agent_card\<close>) is
  addressed to the tool's \<^verbatim>\<open>agent_url\<close>; the message is sent by the client bound to
  the card that discovery returned. Either awaited call may raise. The fresh
  identifiers (\<^verbatim>\<open>uuid4\<close>) of the request are not modelled.
\<close>

record agent_card =
  card_name :: string
  card_url :: string

record remote_behaviour =
  get_agent_card :: "agent_card outcome"
  send_message :: "(string \<times> json) list outcome"

datatype a2a_event = GetAgentCard string | SendMessage agent_card string

text \<open>
  The address of a network call. The client is built from the card alone (line 63:
  \<^verbatim>\<open>A2AClient(httpx_client=httpx_client, agent_card=agent_card)\<close>), so the address it
  sends to is the one the card gives.
\<close>

fun event_url :: "a2a_event \<Rightarrow> string" where
  "event_url (GetAgentCard url) = url"
| "event_url (SendMessage a_card t) = card_url a_card"

text \<open>Lines 82 to 91: the decoding of the dumped reply.\<close>

definition unexpected_format :: "agent_tool \<Rightarrow> json" where
  "unexpected_format self =
     JStr (''Error: Unexpected response format from '' @ agent_name self @ '' agent'')"

definition decode_reply :: "(json \<Rightarrow> string) \<Rightarrow> agent_tool \<Rightarrow> (string \<times> json) list \<Rightarrow> py_exception + json" where
  "decode_reply py_str self result =
     (case map_of result ''error'' of
        Some err \<Rightarrow>
          and_then (py_get err ''message'' (JStr ''Unknown error occurred'')) (\<lambda>error_message.
            Inr (JStr (''Error from '' @ agent_name self @ '' agent: ''
                         @ fstring_value py_str error_message)))
      | None \<Rightarrow>
          (case map_of result ''result'' of
             None \<Rightarrow> Inr (unexpected_format self)
           | Some res \<Rightarrow>
               and_then (py_in ''parts'' res) (\<lambda>has_parts.
                 if \<not> has_parts then Inr (unexpected_format self)
                 else and_then (py_getitem res ''parts'') (\<lambda>parts.
                   and_then (py_len parts) (\<lambda>n.
                     if n > 0
                     then and_then (py_getitem0 parts) (\<lambda>part. py_getitem part ''text'')
                     else Inr (unexpected_format self))))))"

text \<open>Lines 60 to 79: the body of the \<^verbatim>\<open>try\<close> up to the dumped reply, with its network calls.\<close>

definition request_reply :: "agent_tool \<Rightarrow> string \<Rightarrow> remote_behaviour \<Rightarrow> (py_exception + (string \<times> json) list) \<times> a2a_event list" where
  "request_reply self user_input remote =
     (case get_agent_card remote of
        Raises e \<Rightarrow> (Inl e, [GetAgentCard (agent_url self)])
      | Returns a_card \<Rightarrow>
          (case send_message remote of
             Raises e \<Rightarrow> (Inl e, [GetAgentCard (agent_url self), SendMessage a_card user_input])
           | Returns result \<Rightarrow>
               (Inr result, [GetAgentCard (agent_url self), SendMessage a_card user_input])))"

text \<open>
  \<^verbatim>\<open>DynamicAgentTool._send_to_agent\<close>: the \<^verbatim>\<open>try\<close> body and its two handlers,
  \<^verbatim>\<open>except httpx.ReadTimeout\<close> first and \<^verbatim>\<open>except Exception\<close> second. The result is
  the returned value, or the exception that leaves the function, with the network calls made.
\<close>

definition send_to_agent :: "(json \<Rightarrow> string) \<Rightarrow> agent_tool \<Rightarrow> string \<Rightarrow> remote_behaviour \<Rightarrow> (py_exception + json) \<times> a2a_event list" where
  "send_to_agent py_str self user_input remote =
     (let (reply, calls) = request_reply self user_input remote
      in (case and_then reply (decode_reply py_str self) of
            Inr v \<Rightarrow> (Inr v, calls)
          | Inl e \<Rightarrow>
              if exc_class e = ReadTimeout
              then (Inr (JStr (''Error: The '' @ agent_name self
                      @ '' agent is taking longer than expected. Please try again.'')), calls)
              else (Inr (JStr (''Error connecting to '' @ agent_name self @ '' agent: ''
                      @ exc_str e)), calls)))"

definition send_attempts :: "a2a_event list \<Rightarrow> nat" where
  "send_attempts calls = length (filter (\<lambda>ev. case ev of SendMessage c t \<Rightarrow> True | _ \<Rightarrow> False) calls)"

text \<open>
  The typing that \<^verbatim>\<open>a2a.types.TextPart\<close> declares (\<^verbatim>\<open>text: str\<close>), read on the dumped
  reply: when the first part of the result carries a \<^verbatim>\<open>text\<close> member, it is a string.
  The declaration itself is in the a2a library, not in this repository.
\<close>

fun is_str :: "json \<Rightarrow> bool" where
  "is_str (JStr s) = True"
| "is_str v = False"

definition first_text_typed :: "(string \<times> json) list \<Rightarrow> bool" where
  "first_text_typed result =
     (case map_of result ''result'' of
        Some (JDict r) \<Rightarrow>
          (case map_of r ''parts'' of
             Some (JList (JDict p # ps)) \<Rightarrow>
               (case map_of p ''text'' of Some v \<Rightarrow> is_str v | None \<Rightarrow> True)
           | _ \<Rightarrow> True)
      | _ \<Rightarrow> True)"

definition reply_typed :: "remote_behaviour \<Rightarrow> bool" where
  "reply_typed remote =
     (case send_message remote of Returns result \<Rightarrow> first_text_typed result | Raises e \<Rightarrow> True)"


section \<open>Conversations\<close>

text \<open>
  A \<^verbatim>\<open>ChatHistory\<close> is a mutable object: \<^verbatim>\<open>history_store\<close> maps a context id to a
  reference, and the objects live in a heap indexed by these references. A new object
  is allocated at the end of the heap. The dict keeps insertion order, as Python's does.
\<close>

record chat_message =
  role :: string
  content :: string

record chat_history =
  history_system_message :: string
  messages :: "chat_message list"

text \<open>The attributes that \<^verbatim>\<open>HostAgent\<close> and \<^verbatim>\<open>Agent\<close> both have.\<close>

record agent_core =
  name :: string
  description :: string
  system_message :: string
  agent_id :: string
  history_store :: "(string \<times> nat) list"
  heap :: "chat_history list"

text \<open>
  The statements \<^verbatim>\<open>chat_history = self.history_store.get(context_id)\<close> up to
  \<^verbatim>\<open>self.history_store[context_id] = chat_history\<close>, which are the same in
  \<^verbatim>\<open>HostAgent.orchestrate\<close> (lines 209 to 216) and \<^verbatim>\<open>Agent.process_request\<close>
  (lines 121 to 128). The result is the reference held by the local variable.
\<close>

definition get_or_create :: "string \<Rightarrow> 'a agent_core_scheme \<Rightarrow> nat \<times> 'a agent_core_scheme" where
  "get_or_create context_id self =
     (case map_of (history_store self) context_id of
        Some r \<Rightarrow> (r, self)
      | None \<Rightarrow>
          (let r = length (heap self)
           in (r, self\<lparr> heap := heap self @
                          [\<lparr> history_system_message = system_message self, messages = [] \<rparr>],
                        history_store := AList.update context_id r (history_store self) \<rparr>)))"

text \<open>\<^verbatim>\<open>chat_history.messages.append(ChatMessageContent(role=..., content=...))\<close>.\<close>

definition append_message :: "nat \<Rightarrow> chat_message \<Rightarrow> 'a agent_core_scheme \<Rightarrow> 'a agent_core_scheme" where
  "append_message r m self =
     self\<lparr> heap := (heap self)[r := (heap self ! r)\<lparr> messages := messages (heap self ! r) @ [m] \<rparr>] \<rparr>"

text \<open>The conversation of a context: the object its reference points to.\<close>

definition conversation :: "'a agent_core_scheme \<Rightarrow> string \<Rightarrow> chat_history option" where
  "conversation self context_id =
     (case map_of (history_store self) context_id of
        None \<Rightarrow> None
      | Some r \<Rightarrow> Some (heap self ! r))"

text \<open>
  What holds of every store the program builds: distinct context ids refer to distinct
  objects, and every reference points into the heap.
\<close>

definition store_ok :: "'a agent_core_scheme \<Rightarrow> bool" where
  "store_ok self \<longleftrightarrow>
     distinct (map snd (history_store self)) \<and>
     list_all (\<lambda>(k, r). r < length (heap self)) (history_store self)"

text \<open>
  The chat-completion agent and what a call of it shows to the outside: the plugins
  it holds, the message, and the history of the thread at the time of the call. The call
  either raises or returns the reply text (\<^verbatim>\<open>response.content.content\<close>). The call is
  taken to leave the \<^verbatim>\<open>ChatHistory\<close> it is handed as it is: the history is changed by
  the two \<^verbatim>\<open>append\<close> statements of the agent only. The event records the plugins
  that the agent object holds when the call is made; which of them the SDK offers to
  the model during the call is not decided by this repository.
\<close>

record 'p chat_completion_agent =
  completion_name :: string
  plugins :: "'p list"

datatype 'p agent_event = McpConnect string | GetResponse "'p list" string chat_history

definition sanitize_id :: "string \<Rightarrow> string" where
  "sanitize_id n =
     map (\<lambda>c. if is_alnum c \<or> c = CHR ''_'' \<or> c = CHR ''-'' then c else CHR ''_'') n"

definition empty_input_error :: py_exception where
  "empty_input_error = PyExc ValueError ''User input cannot be empty.''"


section \<open>The Orchestrating Agent\<close>

type_synonym endpoint = "(string \<times> string) list"

definition dict_getitem :: "endpoint \<Rightarrow> string \<Rightarrow> py_exception + string" where
  "dict_getitem d k =
     (case map_of d k of Some v \<Rightarrow> Inr v | None \<Rightarrow> Inl (PyExc KeyError (squote @ k @ squote)))"

definition dict_get :: "endpoint \<Rightarrow> string \<Rightarrow> string \<Rightarrow> string" where
  "dict_get d k dflt = (case map_of d k of Some v \<Rightarrow> v | None \<Rightarrow> dflt)"

text \<open>A \<^verbatim>\<open>for\<close> loop whose body may raise, collecting the values it appends.\<close>

fun collect :: "('a \<Rightarrow> py_exception + 'b) \<Rightarrow> 'a list \<Rightarrow> py_exception + 'b list" where
  "collect f [] = Inr []"
| "collect f (x # xs) = and_then (f x) (\<lambda>y. and_then (collect f xs) (\<lambda>ys. Inr (y # ys)))"

fun str_join :: "string \<Rightarrow> string list \<Rightarrow> string" where
  "str_join sep [] = []"
| "str_join sep [x] = x"
| "str_join sep (x # y # ys) = x @ sep @ str_join sep (y # ys)"

record host_agent = agent_core +
  agent_endpoints :: "endpoint list"
  agent_tools :: "agent_tool list"
  chat_agent :: "agent_tool chat_completion_agent"

text \<open>Lines 146 to 148: the first endpoint without a \<^verbatim>\<open>function_name\<close> is reported.\<close>

definition check_function_names :: "endpoint list \<Rightarrow> py_exception + unit" where
  "check_function_names endpoints =
     (case find (\<lambda>ep. map_of ep ''function_name'' = None) endpoints of
        Some ep \<Rightarrow> Inl (PyExc ValueError (''Agent endpoint for '' @ dict_get ep ''name'' ''Unknown''
                     @ '' must include '' @ squote @ ''function_name'' @ squote))
      | None \<Rightarrow> Inr ())"

text \<open>
  Lines 154 to 160: the tool of one endpoint. A missing key raises \<^verbatim>\<open>KeyError\<close>, and
  the creation of the tool may raise.
\<close>

definition endpoint_tool :: "(string \<Rightarrow> py_exception option) \<Rightarrow> endpoint \<Rightarrow> py_exception + agent_tool" where
  "endpoint_tool special ep =
     and_then (dict_getitem ep ''name'') (\<lambda>n.
       and_then (dict_getitem ep ''url'') (\<lambda>u.
         and_then (dict_getitem ep ''function_name'') (\<lambda>f.
           create_agent_tool_class special n u (dict_get ep ''description'' []) f)))"

text \<open>Lines 165 to 168: one line of the default system message per endpoint.\<close>

definition endpoint_line :: "endpoint \<Rightarrow> py_exception + string" where
  "endpoint_line ep =
     and_then (dict_getitem ep ''name'') (\<lambda>n.
       and_then (dict_getitem ep ''function_name'') (\<lambda>f.
         Inr (''- '' @ n @ '' (use function '' @ squote @ f @ squote @ ''): ''
                @ dict_get ep ''description'' ''No description provided'')))"

definition default_system_message :: "string \<Rightarrow> string \<Rightarrow> endpoint list \<Rightarrow> py_exception + string" where
  "default_system_message n d endpoints =
     and_then (collect endpoint_line endpoints) (\<lambda>lines.
       Inr (''You are '' @ n @ ''. '' @ d @ [CHR 0x0A, CHR 0x0A]
            @ ''You have access to the following specialized agents:'' @ [CHR 0x0A]
            @ str_join [CHR 0x0A] lines @ [CHR 0x0A, CHR 0x0A]
            @ ''Use these agents to help answer user requests by delegating tasks to the appropriate agent.''))"

text \<open>
  \<^verbatim>\<open>HostAgent.__init__\<close>. \<^verbatim>\<open>None\<close> for the endpoint list stands for the empty list,
  \<^verbatim>\<open>None\<close> for the system message for the default one. The constructor of the
  chat-completion agent, which is the SDK's, is taken not to raise.
\<close>

definition HostAgent_init :: "(string \<Rightarrow> py_exception option) \<Rightarrow> string \<Rightarrow> string \<Rightarrow> endpoint list option \<Rightarrow> string option \<Rightarrow> py_exception + host_agent" where
  "HostAgent_init special n d agent_endpoints_arg system_message_arg =
     (let endpoints = (case agent_endpoints_arg of None \<Rightarrow> [] | Some eps \<Rightarrow> eps)
      in and_then (check_function_names endpoints) (\<lambda>_.
           and_then (collect (endpoint_tool special) endpoints) (\<lambda>tools.
             and_then (case system_message_arg of
                         None \<Rightarrow> default_system_message n d endpoints
                       | Some m \<Rightarrow> Inr m) (\<lambda>sys.
               Inr \<lparr> name = n, description = d, system_message = sys,
                     agent_id = sanitize_id n, history_store = [], heap = [],
                     agent_endpoints = endpoints, agent_tools = tools,
                     chat_agent = \<lparr> completion_name = sanitize_id n, plugins = tools \<rparr> \<rparr>))))"

text \<open>
  \<^verbatim>\<open>HostAgent.orchestrate\<close>. The last argument is what the awaited
  \<^verbatim>\<open>chat_agent.get_response\<close> does. The result is the returned text or the exception
  that leaves the method, the agent afterwards, and the calls made to the outside.
\<close>

definition orchestrate :: "host_agent \<Rightarrow> string \<Rightarrow> string \<Rightarrow> string outcome \<Rightarrow> (py_exception + string) \<times> host_agent \<times> agent_tool agent_event list" where
  "orchestrate self user_input context_id completion =
     (if user_input = [] then (Inl empty_input_error, self, [])
      else
        (let (r, s1) = get_or_create context_id self;
             s2 = append_message r \<lparr> role = ''user'', content = user_input \<rparr> s1;
             call = GetResponse (plugins (chat_agent s2)) user_input (heap s2 ! r)
         in (case completion of
               Raises e \<Rightarrow> (Inl e, s2, [call])
             | Returns reply \<Rightarrow>
                 (Inr reply,
                  append_message r \<lparr> role = ''assistant'', content = reply \<rparr> s2,
                  [call]))))"

text \<open>
  \<^verbatim>\<open>HostAgent.add_agent_endpoint\<close>: the endpoint is appended (line 240) before the tool
  is created (lines 242 to 249), so an exception of the creation leaves the agent with
  the endpoint and without the tool.
\<close>

definition add_agent_endpoint :: "(string \<Rightarrow> py_exception option) \<Rightarrow> host_agent \<Rightarrow> string \<Rightarrow> string \<Rightarrow> string \<Rightarrow> string \<Rightarrow> (py_exception + unit) \<times> host_agent" where
  "add_agent_endpoint special self url a_name f_name a_description =
     (let ep = [(''url'', url), (''name'', a_name), (''function_name'', f_name),
                (''description'', a_description)];
          s1 = self\<lparr> agent_endpoints := agent_endpoints self @ [ep] \<rparr>
      in (case create_agent_tool_class special a_name url a_description f_name of
            Inl e \<Rightarrow> (Inl e, s1)
          | Inr tool \<Rightarrow>
              (let tools = agent_tools s1 @ [tool]
               in (Inr (), s1\<lparr> agent_tools := tools,
                               chat_agent := (chat_agent s1)\<lparr> plugins := tools \<rparr> \<rparr>))))"


section \<open>The Worker Agent\<close>

record mcp_plugin =
  plugin_name :: string
  plugin_url :: string

record agent = agent_core +
  mcp_sse_urls :: "string list"
  mcp_plugins :: "mcp_plugin list"
  plugins_initialized :: bool
  worker_chat_agent :: "mcp_plugin chat_completion_agent option"

fun str_nat :: "nat \<Rightarrow> string" where
  "str_nat n =
     (if n < 10 then [char_of (48 + n)] else str_nat (n div 10) @ [char_of (48 + n mod 10)])"

text \<open>
  \<^verbatim>\<open>Agent.__init__\<close>: \<^verbatim>\<open>mcp_sse_urls or []\<close> and
  \<^verbatim>\<open>system_message or f"You are {name}. {description}"\<close>, where \<^verbatim>\<open>None\<close> and the empty
  value both give the default. The attribute \<^verbatim>\<open>chat_agent\<close> starts as \<^verbatim>\<open>None\<close>.
\<close>

definition Agent_init :: "string \<Rightarrow> string \<Rightarrow> string list option \<Rightarrow> string option \<Rightarrow> agent" where
  "Agent_init n d mcp_sse_urls_arg system_message_arg =
     \<lparr> name = n, description = d,
       system_message = (case system_message_arg of
                           None \<Rightarrow> ''You are '' @ n @ ''. '' @ d
                         | Some m \<Rightarrow> if m = [] then ''You are '' @ n @ ''. '' @ d else m),
       agent_id = sanitize_id n, history_store = [], heap = [],
       mcp_sse_urls = (case mcp_sse_urls_arg of None \<Rightarrow> [] | Some urls \<Rightarrow> urls),
       mcp_plugins = [], plugins_initialized = False, worker_chat_agent = None \<rparr>"

text \<open>
  The loop of \<^verbatim>\<open>initialize_plugins\<close> (lines 79 to 89). \<open>connect i url\<close> is what
  \<^verbatim>\<open>await plugin.__aenter__()\<close> does for the \<open>i\<close>-th url; an exception is logged and
  the url is skipped.
\<close>

fun connect_plugins :: "(nat \<Rightarrow> string \<Rightarrow> unit outcome) \<Rightarrow> string \<Rightarrow> nat \<Rightarrow> string list \<Rightarrow> mcp_plugin list \<Rightarrow> mcp_plugin list" where
  "connect_plugins connect aid i [] ps = ps"
| "connect_plugins connect aid i (url # urls) ps =
     connect_plugins connect aid (Suc i) urls
       (case connect i url of
          Returns _ \<Rightarrow> ps @ [\<lparr> plugin_name = ''RemoteTools_'' @ aid @ ''_'' @ str_nat (length ps),
                               plugin_url = url \<rparr>]
        | Raises e \<Rightarrow> ps)"

text \<open>\<^verbatim>\<open>Agent.initialize_plugins\<close>, with the connection attempts it makes.\<close>

definition initialize_plugins :: "(nat \<Rightarrow> string \<Rightarrow> unit outcome) \<Rightarrow> agent \<Rightarrow> agent \<times> mcp_plugin agent_event list" where
  "initialize_plugins connect self =
     (if plugins_initialized self then (self, [])
      else
        (let ps = connect_plugins connect (agent_id self) 0 (mcp_sse_urls self) (mcp_plugins self)
         in (self\<lparr> mcp_plugins := ps,
                   worker_chat_agent := Some \<lparr> completion_name = agent_id self, plugins = ps \<rparr>,
                   plugins_initialized := True \<rparr>,
             map McpConnect (mcp_sse_urls self))))"

text \<open>\<^verbatim>\<open>Agent.process_request\<close>.\<close>

definition process_request :: "agent \<Rightarrow> string \<Rightarrow> string \<Rightarrow> (nat \<Rightarrow> string \<Rightarrow> unit outcome) \<Rightarrow> string outcome \<Rightarrow> (py_exception + string) \<times> agent \<times> mcp_plugin agent_event list" where
  "process_request self0 user_input context_id connect completion =
     (let (self, boot) = initialize_plugins connect self0
      in (case worker_chat_agent self of
            None \<Rightarrow>
              (Inl (PyExc RuntimeError ''Chat agent not initialized. Call initialize_plugins() first.''),
               self, boot)
          | Some ca \<Rightarrow>
              if user_input = [] then (Inl empty_input_error, self, boot)
              else
                (let (r, s1) = get_or_create context_id self;
                     s2 = append_message r \<lparr> role = ''user'', content = user_input \<rparr> s1;
                     call = GetResponse (plugins ca) user_input (heap s2 ! r)
                 in (case completion of
                       Raises e \<Rightarrow> (Inl e, s2, boot @ [call])
                     | Returns reply \<Rightarrow>
                         (Inr reply,
                          append_message r \<lparr> role = ''assistant'', content = reply \<rparr> s2,
                          boot @ [call])))))"


section \<open>Observing a call and a run of calls\<close>

text \<open>The three components of what \<open>orchestrate\<close> and \<open>process_request\<close> yield.\<close>

definition returned :: "'r \<times> 's \<times> 't \<Rightarrow> 'r" where
  "returned x = fst x"

definition agent_after :: "'r \<times> 's \<times> 't \<Rightarrow> 's" where
  "agent_after x = fst (snd x)"

definition calls_made :: "'r \<times> 's \<times> 't \<Rightarrow> 't" where
  "calls_made x = snd (snd x)"

text \<open>
  The conversation a turn starts from: the stored one, or for an unseen context the
  one that is created, with the system message of the agent and no turns.
\<close>

definition fresh_history :: "'a agent_core_scheme \<Rightarrow> chat_history" where
  "fresh_history s = \<lparr> history_system_message = system_message s, messages = [] \<rparr>"

definition current :: "'a agent_core_scheme \<Rightarrow> string \<Rightarrow> chat_history" where
  "current s c = (case conversation s c of None \<Rightarrow> fresh_history s | Some h \<Rightarrow> h)"

definition history_messages :: "'a agent_core_scheme \<Rightarrow> string \<Rightarrow> chat_message list" where
  "history_messages s c = (case conversation s c of None \<Rightarrow> [] | Some h \<Rightarrow> messages h)"

definition add_turn :: "chat_message \<Rightarrow> chat_history \<Rightarrow> chat_history" where
  "add_turn m h = h\<lparr> messages := messages h @ [m] \<rparr>"

text \<open>
  What one turn adds to a conversation: the user turn, and the assistant turn when the
  completion returned.
\<close>

definition record_turn :: "string \<Rightarrow> string outcome \<Rightarrow> chat_history \<Rightarrow> chat_history" where
  "record_turn x k h =
     (case k of
        Raises e \<Rightarrow> add_turn \<lparr> role = ''user'', content = x \<rparr> h
      | Returns reply \<Rightarrow>
          add_turn \<lparr> role = ''assistant'', content = reply \<rparr> (add_turn \<lparr> role = ''user'', content = x \<rparr> h))"

text \<open>
  The statements that \<open>orchestrate\<close> and \<open>process_request\<close> share after their input
  checks, as a function on the attributes the two agents have in common.
\<close>

definition turn_state :: "string \<Rightarrow> string \<Rightarrow> string outcome \<Rightarrow> 'a agent_core_scheme \<Rightarrow> 'a agent_core_scheme" where
  "turn_state x c k s =
     (let (r, s1) = get_or_create c s;
          s2 = append_message r \<lparr> role = ''user'', content = x \<rparr> s1
      in (case k of
            Raises e \<Rightarrow> s2
          | Returns reply \<Rightarrow> append_message r \<lparr> role = ''assistant'', content = reply \<rparr> s2))"

text \<open>
  A Worker Agent marked as initialized without a chat agent: no method of the class
  produces this state, and \<open>process_request\<close> raises \<^verbatim>\<open>RuntimeError\<close> in it.
\<close>

definition stuck :: "agent \<Rightarrow> bool" where
  "stuck s \<longleftrightarrow> plugins_initialized s \<and> worker_chat_agent s = None"

text \<open>
  A completed call is its input, its context id and what the completion did. A run
  makes the calls one after the other, whether they return or raise.
\<close>

type_synonym turn_call = "string \<times> string \<times> string outcome"

fun orchestrate_all :: "host_agent \<Rightarrow> turn_call list \<Rightarrow> host_agent" where
  "orchestrate_all s [] = s"
| "orchestrate_all s ((x, c, k) # calls) = orchestrate_all (agent_after (orchestrate s x c k)) calls"

fun process_all :: "(nat \<Rightarrow> string \<Rightarrow> unit outcome) \<Rightarrow> agent \<Rightarrow> turn_call list \<Rightarrow> agent" where
  "process_all connect s [] = s"
| "process_all connect s ((x, c, k) # calls) =
     process_all connect (agent_after (process_request s x c connect k)) calls"

definition for_context :: "string \<Rightarrow> turn_call list \<Rightarrow> turn_call list" where
  "for_context b calls = filter (\<lambda>(x, c, k). c = b) calls"


section \<open>Tool bindings\<close>

text \<open>
  An endpoint descriptor that carries the three keys the constructor reads without a
  default, with a function name under which the tool can be created; and what it means
  for a tool to be the binding of a descriptor: the name the function-calling mechanism
  sees is the descriptor's function name, the proxy is built from the descriptor's name
  and url, and the description the mechanism sees is the decorator's sentence around
  the descriptor's description (empty when absent).
\<close>

definition described :: "(string \<Rightarrow> py_exception option) \<Rightarrow> endpoint \<Rightarrow> bool" where
  "described special ep \<longleftrightarrow>
     map_of ep ''name'' \<noteq> None \<and> map_of ep ''url'' \<noteq> None \<and>
     (case map_of ep ''function_name'' of
        None \<Rightarrow> False
      | Some f \<Rightarrow> instantiate_error special f = None)"

definition binds :: "endpoint \<Rightarrow> agent_tool \<Rightarrow> bool" where
  "binds ep t \<longleftrightarrow>
     map_of ep ''function_name'' = Some (kernel_function_name t) \<and>
     map_of ep ''name'' = Some (agent_name t) \<and>
     map_of ep ''url'' = Some (agent_url t) \<and>
     kernel_function_description t =
       ''Send a request to '' @ agent_name t @ '': '' @ dict_get ep ''description'' []"


section \<open>Example values\<close>

text \<open>
  The endpoint of the end-to-end scenario of the specification and a second one, a
  reply of each kind, and two agents. \<open>blank_str\<close> stands in for \<^verbatim>\<open>str\<close> where no
  value other than a string is formatted, and \<open>lenient\<close> for an interpreter that raises
  nothing for the special names the model leaves open.
\<close>

definition lenient :: "string \<Rightarrow> py_exception option" where
  "lenient f = None"

definition blank_str :: "json \<Rightarrow> string" where
  "blank_str v = []"

definition order_endpoint :: endpoint where
  "order_endpoint = [(''url'', ''http://X''), (''name'', ''Order Agent''),
     (''function_name'', ''check_order_status''), (''description'', ''Tracks orders'')]"

definition order_tool :: agent_tool where
  "order_tool = DynamicAgentTool ''Order Agent'' ''http://X'' ''Tracks orders'' ''check_order_status''"

definition sql_endpoint :: endpoint where
  "sql_endpoint = [(''url'', ''http://Y''), (''name'', ''SQL Agent''),
     (''function_name'', ''analyze_sql_data'')]"

definition sql_tool :: agent_tool where
  "sql_tool = DynamicAgentTool ''SQL Agent'' ''http://Y'' [] ''analyze_sql_data''"

definition no_url_endpoint :: endpoint where
  "no_url_endpoint = [(''name'', ''Order Agent''), (''function_name'', ''check_order_status'')]"

definition init_endpoint :: endpoint where
  "init_endpoint = [(''url'', ''http://X''), (''name'', ''Order Agent''),
     (''function_name'', ''__init__''), (''description'', ''Tracks orders'')]"

definition order_card :: agent_card where
  "order_card = \<lparr> card_name = ''Order Agent'', card_url = ''http://X'' \<rparr>"

definition error_reply :: remote_behaviour where
  "error_reply = \<lparr> get_agent_card = Returns order_card,
     send_message = Returns [(''error'', JDict [(''code'', JNum (- 32603)), (''message'', JStr ''boom'')]),
                             (''jsonrpc'', JStr ''2.0'')] \<rparr>"

definition text_reply :: remote_behaviour where
  "text_reply = \<lparr> get_agent_card = Returns order_card,
     send_message = Returns [(''jsonrpc'', JStr ''2.0''),
       (''result'', JDict [(''kind'', JStr ''message''),
          (''parts'', JList [JDict [(''kind'', JStr ''text''), (''text'', JStr ''shipped'')]]),
          (''role'', JStr ''agent'')])] \<rparr>"

definition task_reply :: remote_behaviour where
  "task_reply = \<lparr> get_agent_card = Returns order_card,
     send_message = Returns [(''jsonrpc'', JStr ''2.0''),
       (''result'', JDict [(''kind'', JStr ''task''), (''id'', JStr ''t1'')])] \<rparr>"

definition file_reply :: remote_behaviour where
  "file_reply = \<lparr> get_agent_card = Returns order_card,
     send_message = Returns [(''jsonrpc'', JStr ''2.0''),
       (''result'', JDict [(''kind'', JStr ''message''),
          (''parts'', JList [JDict [(''file'', JDict [(''uri'', JStr ''http://X/label.pdf'')]),
                                    (''kind'', JStr ''file'')],
                             JDict [(''kind'', JStr ''text''), (''text'', JStr ''see attachment'')]]),
          (''role'', JStr ''agent'')])] \<rparr>"

definition moved_reply :: remote_behaviour where
  "moved_reply = \<lparr> get_agent_card = Returns \<lparr> card_name = ''Order Agent'', card_url = ''http://elsewhere/'' \<rparr>,
     send_message = Returns [(''jsonrpc'', JStr ''2.0''),
       (''result'', JDict [(''kind'', JStr ''message''),
          (''parts'', JList [JDict [(''kind'', JStr ''text''), (''text'', JStr ''shipped'')]]),
          (''role'', JStr ''agent'')])] \<rparr>"

definition connect_timeout :: remote_behaviour where
  "connect_timeout = \<lparr> get_agent_card = Returns order_card,
     send_message = Raises (PyExc (LibraryError ''ConnectTimeout'') ''All connection attempts failed'') \<rparr>"

definition discovery_timeout :: remote_behaviour where
  "discovery_timeout = \<lparr> get_agent_card = Raises (PyExc ReadTimeout []), send_message = Returns [] \<rparr>"

definition send_timeout :: remote_behaviour where
  "send_timeout = \<lparr> get_agent_card = Returns order_card, send_message = Raises (PyExc ReadTimeout []) \<rparr>"

definition tools_of :: "py_exception + host_agent \<Rightarrow> agent_tool list" where
  "tools_of made = (case made of Inl e \<Rightarrow> [] | Inr h \<Rightarrow> agent_tools h)"

definition order_host :: host_agent where
  "order_host = \<lparr> name = ''Host'', description = ''Coordinates'', system_message = ''You are Host.'',
     agent_id = ''Host'', history_store = [], heap = [],
     agent_endpoints = [order_endpoint], agent_tools = [order_tool],
     chat_agent = \<lparr> completion_name = ''Host'', plugins = [order_tool] \<rparr> \<rparr>"

definition csv_worker :: agent where
  "csv_worker = Agent_init ''CSV Agent'' ''Reads CSV files'' (Some [''http://mcp'']) None"

definition all_connect :: "nat \<Rightarrow> string \<Rightarrow> unit outcome" where
  "all_connect i url = Returns ()"

definition two_contexts :: "turn_call list" where
  "two_contexts = [(''hi'', ''ctx-1'', Returns ''hello''), (''status?'', ''ctx-2'', Returns ''shipped''),
     (''more'', ''ctx-1'', Raises (PyExc (LibraryError ''ServiceResponseException'') ''down''))]"


section \<open>Properties of the conversation store\<close>

lemma and_then_simps [simp]:
  "and_then (Inl e) f = Inl e"
  "and_then (Inr x) f = f x"
  by (simp_all add: and_then_def)

lemma update_absent: "map_of al k = None \<Longrightarrow> AList.update k v al = al @ [(k, v)]"
  by (induction al) (auto split: if_splits)

lemma map_of_snoc:
  "map_of (al @ [(k, v)]) k' =
     (case map_of al k' of Some x \<Rightarrow> Some x | None \<Rightarrow> if k' = k then Some v else None)"
  by (simp add: map_add_def split: option.splits)

lemma get_or_create_seen:
  "map_of (history_store s) c = Some r \<Longrightarrow> get_or_create c s = (r, s)"
  by (simp add: get_or_create_def)

lemma get_or_create_unseen:
  "map_of (history_store s) c = None \<Longrightarrow>
     get_or_create c s =
       (length (heap s),
        s\<lparr> heap := heap s @ [\<lparr> history_system_message = system_message s, messages = [] \<rparr>],
           history_store := history_store s @ [(c, length (heap s))] \<rparr>)"
  by (simp add: get_or_create_def update_absent Let_def)

lemmas unseen_simps = get_or_create_unseen map_of_snoc

lemma store_ok_lookup:
  "store_ok s \<Longrightarrow> map_of (history_store s) c = Some r \<Longrightarrow> r < length (heap s)"
  by (auto simp: store_ok_def list_all_iff dest!: map_of_SomeD)

lemma store_ok_inj:
  assumes "store_ok s" "map_of (history_store s) a = Some r" "map_of (history_store s) b = Some r"
  shows "a = b"
proof -
  from assms(2,3) have "(a, r) \<in> set (history_store s)" "(b, r) \<in> set (history_store s)"
    by (auto dest: map_of_SomeD)
  moreover from assms(1) have "distinct (map snd (history_store s))"
    by (simp add: store_ok_def)
  ultimately show ?thesis
    by (metis distinct_map inj_on_def snd_conv fst_conv)
qed

lemma get_or_create_store_ok:
  assumes "store_ok s"
  shows "store_ok (snd (get_or_create c s))"
proof (cases "map_of (history_store s) c")
  case None
  have "r \<noteq> length (heap s)" if "(k, r) \<in> set (history_store s)" for k r
    using assms that by (auto simp: store_ok_def list_all_iff)
  then have "length (heap s) \<notin> snd ` set (history_store s)"
    by force
  with assms None show ?thesis
    by (auto simp: get_or_create_unseen store_ok_def list_all_iff less_Suc_eq)
next
  case (Some r)
  with assms show ?thesis by (simp add: get_or_create_seen)
qed

lemma get_or_create_ref:
  "map_of (history_store (snd (get_or_create c s))) c = Some (fst (get_or_create c s))"
  by (cases "map_of (history_store s) c") (simp_all add: get_or_create_seen unseen_simps del: map_of_append)

lemma get_or_create_own:
  assumes "store_ok s"
  shows "conversation (snd (get_or_create c s)) c = Some (current s c)"
proof (cases "map_of (history_store s) c")
  case None
  then show ?thesis
    by (simp del: map_of_append add: unseen_simps conversation_def current_def fresh_history_def)
next
  case (Some r)
  then show ?thesis
    by (simp add: get_or_create_seen conversation_def current_def)
qed

lemma get_or_create_frame:
  assumes "store_ok s" "b \<noteq> c"
  shows "conversation (snd (get_or_create c s)) b = conversation s b"
proof (cases "map_of (history_store s) c")
  case None
  show ?thesis
  proof (cases "map_of (history_store s) b")
    case None
    with \<open>map_of (history_store s) c = None\<close> assms(2) show ?thesis
      by (simp del: map_of_append add: unseen_simps conversation_def)
  next
    case (Some r)
    with assms(1) have "r < length (heap s)" by (rule store_ok_lookup)
    with Some \<open>map_of (history_store s) c = None\<close> assms(2) show ?thesis
      by (simp del: map_of_append add: unseen_simps conversation_def nth_append)
  qed
next
  case (Some r)
  then show ?thesis by (simp add: get_or_create_seen)
qed

lemma get_or_create_keeps:
  "map_of (history_store s) k = Some r \<Longrightarrow> map_of (history_store (snd (get_or_create c s))) k = Some r"
  by (cases "map_of (history_store s) c") (auto simp: get_or_create_seen unseen_simps simp del: map_of_append)

lemma get_or_create_system_message [simp]:
  "system_message (snd (get_or_create c s)) = system_message s"
  by (cases "map_of (history_store s) c") (simp_all add: get_or_create_seen unseen_simps del: map_of_append)

lemma append_message_fields [simp]:
  "history_store (append_message r m s) = history_store s"
  "system_message (append_message r m s) = system_message s"
  "length (heap (append_message r m s)) = length (heap s)"
  by (simp_all add: append_message_def)

lemma append_message_store_ok [simp]:
  "store_ok (append_message r m s) = store_ok s"
  by (simp add: store_ok_def)

lemma append_message_own:
  assumes "store_ok s" "map_of (history_store s) c = Some r"
  shows "conversation (append_message r m s) c = map_option (add_turn m) (conversation s c)"
proof -
  from assms have "r < length (heap s)" by (rule store_ok_lookup)
  with assms(2) show ?thesis
    by (simp add: conversation_def append_message_def add_turn_def)
qed

lemma append_message_frame:
  assumes "store_ok s" "map_of (history_store s) c = Some r" "b \<noteq> c"
  shows "conversation (append_message r m s) b = conversation s b"
proof (cases "map_of (history_store s) b")
  case None
  then show ?thesis by (simp add: conversation_def)
next
  case (Some r')
  with assms have "r' \<noteq> r" by (auto dest: store_ok_inj)
  with Some show ?thesis
    by (simp add: conversation_def append_message_def)
qed

lemma turn_state_alt:
  "turn_state x c k s =
     (let r = fst (get_or_create c s); s1 = snd (get_or_create c s);
          s2 = append_message r \<lparr> role = ''user'', content = x \<rparr> s1
      in (case k of
            Raises e \<Rightarrow> s2
          | Returns reply \<Rightarrow> append_message r \<lparr> role = ''assistant'', content = reply \<rparr> s2))"
  by (simp add: turn_state_def split: prod.splits)

lemma turn_state_store_ok:
  "store_ok s \<Longrightarrow> store_ok (turn_state x c k s)"
  by (simp add: turn_state_alt Let_def get_or_create_store_ok split: outcome.splits)

lemma turn_state_system_message [simp]:
  "system_message (turn_state x c k s) = system_message s"
  by (simp add: turn_state_alt Let_def split: outcome.splits)

lemma turn_state_keeps:
  "map_of (history_store s) b = Some r \<Longrightarrow> map_of (history_store (turn_state x c k s)) b = Some r"
  by (simp add: turn_state_alt Let_def get_or_create_keeps split: outcome.splits)

lemma turn_state_own:
  assumes "store_ok s"
  shows "conversation (turn_state x c k s) c = Some (record_turn x k (current s c))"
proof -
  let ?r = "fst (get_or_create c s)" and ?s1 = "snd (get_or_create c s)"
  let ?s2 = "append_message ?r \<lparr> role = ''user'', content = x \<rparr> ?s1"
  have ok1: "store_ok ?s1" using assms by (rule get_or_create_store_ok)
  have ref1: "map_of (history_store ?s1) c = Some ?r" by (rule get_or_create_ref)
  have c2: "conversation ?s2 c = Some (add_turn \<lparr> role = ''user'', content = x \<rparr> (current s c))"
    using ok1 ref1 assms by (simp add: append_message_own get_or_create_own)
  have ok2: "store_ok ?s2" using ok1 by simp
  have ref2: "map_of (history_store ?s2) c = Some ?r" using ref1 by simp
  show ?thesis
  proof (cases k)
    case (Raises e)
    with c2 show ?thesis by (simp add: turn_state_alt record_turn_def Let_def)
  next
    case (Returns reply)
    have "conversation (append_message ?r \<lparr> role = ''assistant'', content = reply \<rparr> ?s2) c =
        map_option (add_turn \<lparr> role = ''assistant'', content = reply \<rparr>) (conversation ?s2 c)"
      using ok2 ref2 by (rule append_message_own)
    with c2 Returns show ?thesis
      by (simp add: turn_state_alt record_turn_def Let_def)
  qed
qed

lemma turn_state_frame:
  assumes "store_ok s" "b \<noteq> c"
  shows "conversation (turn_state x c k s) b = conversation s b"
proof -
  let ?r = "fst (get_or_create c s)" and ?s1 = "snd (get_or_create c s)"
  let ?s2 = "append_message ?r \<lparr> role = ''user'', content = x \<rparr> ?s1"
  have ok1: "store_ok ?s1" using assms(1) by (rule get_or_create_store_ok)
  have ref1: "map_of (history_store ?s1) c = Some ?r" by (rule get_or_create_ref)
  have c2: "conversation ?s2 b = conversation s b"
    using ok1 ref1 assms by (simp add: append_message_frame get_or_create_frame)
  have ok2: "store_ok ?s2" using ok1 by simp
  have ref2: "map_of (history_store ?s2) c = Some ?r" using ref1 by simp
  show ?thesis
  proof (cases k)
    case (Raises e)
    with c2 show ?thesis by (simp add: turn_state_alt Let_def)
  next
    case (Returns reply)
    have "conversation (append_message ?r \<lparr> role = ''assistant'', content = reply \<rparr> ?s2) b =
        conversation ?s2 b"
      using ok2 ref2 assms(2) by (rule append_message_frame)
    with c2 Returns show ?thesis
      by (simp add: turn_state_alt Let_def)
  qed
qed

lemma orchestrate_agent:
  "agent_after (orchestrate s x c k) = (if x = [] then s else turn_state x c k s)"
  by (simp add: orchestrate_def agent_after_def turn_state_def Let_def split: prod.splits outcome.splits)

lemma initialize_plugins_core [simp]:
  "history_store (fst (initialize_plugins connect s)) = history_store s"
  "heap (fst (initialize_plugins connect s)) = heap s"
  "system_message (fst (initialize_plugins connect s)) = system_message s"
  by (simp_all add: initialize_plugins_def Let_def)

lemma initialize_plugins_chat_agent:
  "worker_chat_agent (fst (initialize_plugins connect s)) = None \<longleftrightarrow> stuck s"
  by (simp add: initialize_plugins_def Let_def stuck_def)

lemma process_request_agent:
  "agent_after (process_request s x c connect k) =
     (let s' = fst (initialize_plugins connect s)
      in if stuck s \<or> x = [] then s' else turn_state x c k s')"
proof -
  obtain s' boot where init: "initialize_plugins connect s = (s', boot)"
    by force
  have "worker_chat_agent s' = None \<longleftrightarrow> stuck s"
    using initialize_plugins_chat_agent [of connect s] init by simp
  with init show ?thesis
    by (cases "worker_chat_agent s'")
      (auto simp: process_request_def agent_after_def turn_state_def Let_def
        split: prod.splits outcome.splits)
qed

lemma for_context_simps [simp]:
  "for_context b [] = []"
  "for_context b ((x, c, k) # calls) = (if c = b then (x, c, k) # for_context b calls else for_context b calls)"
  by (simp_all add: for_context_def)

lemma current_cong:
  "conversation s1 b = conversation s2 b \<Longrightarrow> system_message s1 = system_message s2 \<Longrightarrow>
     current s1 b = current s2 b"
  by (simp add: current_def fresh_history_def split: option.splits)

lemma orchestrate_store_ok:
  "store_ok s \<Longrightarrow> store_ok (agent_after (orchestrate s x c k))"
  by (simp add: orchestrate_agent turn_state_store_ok)

lemma orchestrate_system_message [simp]:
  "system_message (agent_after (orchestrate s x c k)) = system_message s"
  by (simp add: orchestrate_agent)

lemma orchestrate_frame:
  "store_ok s \<Longrightarrow> b \<noteq> c \<Longrightarrow> conversation (agent_after (orchestrate s x c k)) b = conversation s b"
  by (simp add: orchestrate_agent turn_state_frame)

lemma orchestrate_own:
  "store_ok s \<Longrightarrow>
     conversation (agent_after (orchestrate s x c k)) c =
       (if x = [] then conversation s c else Some (record_turn x k (current s c)))"
  by (simp add: orchestrate_agent turn_state_own)

lemma orchestrate_keeps:
  "map_of (history_store s) b = Some r \<Longrightarrow>
     map_of (history_store (agent_after (orchestrate s x c k))) b = Some r"
  by (simp add: orchestrate_agent turn_state_keeps)

lemma orchestrate_all_store_ok:
  "store_ok s \<Longrightarrow> store_ok (orchestrate_all s calls)"
  by (induction s calls rule: orchestrate_all.induct) (simp_all add: orchestrate_store_ok)

lemma orchestrate_all_keeps:
  "map_of (history_store s) b = Some r \<Longrightarrow> map_of (history_store (orchestrate_all s calls)) b = Some r"
  by (induction s calls rule: orchestrate_all.induct) (simp_all add: orchestrate_keeps)

lemma orchestrate_all_projection:
  assumes "store_ok s1" "store_ok s2" "system_message s1 = system_message s2"
    and "conversation s1 b = conversation s2 b"
  shows "conversation (orchestrate_all s1 calls) b =
         conversation (orchestrate_all s2 (for_context b calls)) b"
  using assms
proof (induction s1 calls arbitrary: s2 rule: orchestrate_all.induct)
  case (1 s)
  then show ?case by simp
next
  case (2 s x c k calls)
  let ?s = "agent_after (orchestrate s x c k)"
  have ok: "store_ok ?s" using "2.prems"(1) by (rule orchestrate_store_ok)
  show ?case
  proof (cases "c = b")
    case True
    let ?s2 = "agent_after (orchestrate s2 x c k)"
    have "store_ok ?s2" using "2.prems"(2) by (rule orchestrate_store_ok)
    moreover have "system_message ?s = system_message ?s2" using "2.prems"(3) by simp
    moreover have "conversation ?s b = conversation ?s2 b"
    proof -
      have "current s b = current s2 b"
        using "2.prems"(4,3) by (rule current_cong)
      with "2.prems"(1,2,4) True show ?thesis
        by (simp only: orchestrate_own)
    qed
    ultimately have "conversation (orchestrate_all ?s calls) b =
        conversation (orchestrate_all ?s2 (for_context b calls)) b"
      using ok by (intro "2.IH")
    with True show ?thesis by simp
  next
    case False
    have "system_message ?s = system_message s2" using "2.prems"(3) by simp
    moreover have "conversation ?s b = conversation s2 b"
      using "2.prems" False by (simp add: orchestrate_frame)
    ultimately have "conversation (orchestrate_all ?s calls) b =
        conversation (orchestrate_all s2 (for_context b calls)) b"
      using ok "2.prems"(2) by (intro "2.IH")
    with False show ?thesis by simp
  qed
qed

lemma turn_state_worker_fields [simp]:
  "worker_chat_agent (turn_state x c k s) = worker_chat_agent s"
  "plugins_initialized (turn_state x c k s) = plugins_initialized s"
  by (simp_all add: turn_state_alt Let_def append_message_def get_or_create_def
      split: outcome.splits option.splits)

lemma initialize_plugins_stuck [simp]:
  "stuck (fst (initialize_plugins connect s)) = stuck s"
  by (simp add: initialize_plugins_def Let_def stuck_def)

lemma initialize_plugins_store_ok [simp]:
  "store_ok (fst (initialize_plugins connect s)) = store_ok s"
  by (simp add: store_ok_def)

lemma initialize_plugins_conversation [simp]:
  "conversation (fst (initialize_plugins connect s)) b = conversation s b"
  by (simp add: conversation_def split: option.splits)

lemma initialize_plugins_current [simp]:
  "current (fst (initialize_plugins connect s)) b = current s b"
  by (simp add: current_def fresh_history_def split: option.splits)

lemma turn_state_stuck [simp]:
  "stuck (turn_state x c k s) = stuck s"
  by (simp add: stuck_def)

lemma process_request_stuck [simp]:
  "stuck (agent_after (process_request s x c connect k)) = stuck s"
  by (simp add: process_request_agent Let_def)

lemma process_request_store_ok:
  "store_ok s \<Longrightarrow> store_ok (agent_after (process_request s x c connect k))"
  by (simp add: process_request_agent Let_def turn_state_store_ok)

lemma process_request_system_message [simp]:
  "system_message (agent_after (process_request s x c connect k)) = system_message s"
  by (simp add: process_request_agent Let_def)

lemma process_request_frame:
  "store_ok s \<Longrightarrow> b \<noteq> c \<Longrightarrow>
     conversation (agent_after (process_request s x c connect k)) b = conversation s b"
  by (simp add: process_request_agent Let_def turn_state_frame)

lemma process_request_own:
  "store_ok s \<Longrightarrow>
     conversation (agent_after (process_request s x c connect k)) c =
       (if stuck s \<or> x = [] then conversation s c else Some (record_turn x k (current s c)))"
  by (simp add: process_request_agent Let_def turn_state_own)

lemma process_request_keeps:
  "map_of (history_store s) b = Some r \<Longrightarrow>
     map_of (history_store (agent_after (process_request s x c connect k))) b = Some r"
  by (simp add: process_request_agent Let_def turn_state_keeps)

lemma process_all_store_ok:
  "store_ok s \<Longrightarrow> store_ok (process_all connect s calls)"
  by (induction connect s calls rule: process_all.induct) (simp_all add: process_request_store_ok)

lemma process_all_keeps:
  "map_of (history_store s) b = Some r \<Longrightarrow>
     map_of (history_store (process_all connect s calls)) b = Some r"
  by (induction connect s calls rule: process_all.induct) (simp_all add: process_request_keeps)

lemma process_all_projection:
  assumes "store_ok s1" "store_ok s2" "system_message s1 = system_message s2"
    and "stuck s1 = stuck s2" and "conversation s1 b = conversation s2 b"
  shows "conversation (process_all connect s1 calls) b =
         conversation (process_all connect s2 (for_context b calls)) b"
  using assms
proof (induction connect s1 calls arbitrary: s2 rule: process_all.induct)
  case (1 connect s)
  then show ?case by simp
next
  case (2 connect s x c k calls)
  let ?s = "agent_after (process_request s x c connect k)"
  have ok: "store_ok ?s" using "2.prems"(1) by (rule process_request_store_ok)
  show ?case
  proof (cases "c = b")
    case True
    let ?s2 = "agent_after (process_request s2 x c connect k)"
    have "store_ok ?s2" using "2.prems"(2) by (rule process_request_store_ok)
    moreover have "system_message ?s = system_message ?s2" using "2.prems"(3) by simp
    moreover have "stuck ?s = stuck ?s2" using "2.prems"(4) by simp
    moreover have "conversation ?s b = conversation ?s2 b"
    proof -
      have "current s b = current s2 b"
        using "2.prems"(5,3) by (rule current_cong)
      with "2.prems"(1,2,4,5) True show ?thesis
        by (simp only: process_request_own)
    qed
    ultimately have "conversation (process_all connect ?s calls) b =
        conversation (process_all connect ?s2 (for_context b calls)) b"
      using ok by (intro "2.IH")
    with True show ?thesis by simp
  next
    case False
    have "system_message ?s = system_message s2" using "2.prems"(3) by simp
    moreover have "stuck ?s = stuck s2" using "2.prems"(4) by simp
    moreover have "conversation ?s b = conversation s2 b"
      using "2.prems" False by (simp add: process_request_frame)
    ultimately have "conversation (process_all connect ?s calls) b =
        conversation (process_all connect s2 (for_context b calls)) b"
      using ok "2.prems"(2) by (intro "2.IH")
    with False show ?thesis by simp
  qed
qed


section \<open>Properties of the Remote Agent Proxy\<close>










text \<open>
  Claim C4, as amended. For every instruction, when discovery succeeds and the dumped
  reply is an error envelope whose \<^verbatim>\<open>error\<close> member carries the message \<open>X\<close>, the
  proxy returns the string \<^verbatim>\<open>Error from <agent> agent: X\<close>, where \<^verbatim>\<open><agent>\<close> is the
  agent name of the proxy, and raises nothing.
\<close>

theorem error_envelope_message:
  assumes "get_agent_card remote = Returns a_card"
    and "send_message remote = Returns result"
    and "map_of result ''error'' = Some (JDict err)"
    and "map_of err ''message'' = Some (JStr X)"
  shows "fst (send_to_agent py_str self user_input remote) =
         Inr (JStr (''Error from '' @ agent_name self @ '' agent: '' @ X))"
  using assms
  by (simp add: send_to_agent_def request_reply_def decode_reply_def fstring_value_def)

text \<open>The theorem at the error reply of the Order Agent.\<close>

theorem error_envelope_message_witness:
  "get_agent_card error_reply = Returns order_card \<and>
   map_of [(''code'', JNum (- 32603)), (''message'', JStr ''boom'')] ''message'' = Some (JStr ''boom'') \<and>
   fst (send_to_agent blank_str order_tool ''Where is ORD1?'' error_reply) =
     Inr (JStr ''Error from Order Agent agent: boom'')"
  using error_envelope_message [of error_reply order_card
      "[(''error'', JDict [(''code'', JNum (- 32603)), (''message'', JStr ''boom'')]), (''jsonrpc'', JStr ''2.0'')]"
      "[(''code'', JNum (- 32603)), (''message'', JStr ''boom'')]" "''boom''" blank_str order_tool
      "''Where is ORD1?''"]
  by (simp add: error_reply_def order_tool_def DynamicAgentTool_def)

text \<open>
  Claim C4 as stated fails: for the agent named \<^verbatim>\<open>Order Agent\<close> and the message
  \<^verbatim>\<open>boom\<close> the returned string is not \<^verbatim>\<open>Error from Order Agent: boom\<close>; the code puts
  the word \<^verbatim>\<open>agent\<close> after the name.
\<close>

theorem error_envelope_counterexample:
  "fst (send_to_agent blank_str order_tool ''Where is ORD1?'' error_reply) \<noteq>
     Inr (JStr (''Error from '' @ agent_name order_tool @ '': '' @ ''boom''))"
  by (simp add: send_to_agent_def request_reply_def decode_reply_def fstring_value_def
      error_reply_def order_tool_def DynamicAgentTool_def)

lemma send_to_agent_calls:
  "snd (send_to_agent py_str self user_input remote) = snd (request_reply self user_input remote)"
  by (simp add: send_to_agent_def split: prod.splits sum.splits)

lemma send_attempts_request_reply:
  "send_attempts (snd (send_to_agent py_str self user_input remote)) \<le> 1"
  unfolding send_to_agent_calls
  by (simp add: request_reply_def send_attempts_def split: outcome.splits)

text \<open>
  Claim C5, as amended. For every instruction, when an awaited network operation of the
  proxy raises the read timeout, the one timeout the handler of line 93 names
  (\<^verbatim>\<open>httpx.ReadTimeout\<close>), the proxy returns the string
  \<^verbatim>\<open>Error: The <agent> agent is taking longer than expected. Please try again.\<close>
  and raises nothing. No operation is repeated: a call makes at most one send attempt,
  exactly one when the send itself times out and none when discovery, which comes
  first, times out.
\<close>

theorem read_timeout_reported:
  assumes "exc_class e = ReadTimeout"
  shows "(get_agent_card remote = Raises e \<longrightarrow>
            send_to_agent py_str self user_input remote =
              (Inr (JStr (''Error: The '' @ agent_name self
                 @ '' agent is taking longer than expected. Please try again.'')),
               [GetAgentCard (agent_url self)])) \<and>
         (get_agent_card remote = Returns a_card \<and> send_message remote = Raises e \<longrightarrow>
            send_to_agent py_str self user_input remote =
              (Inr (JStr (''Error: The '' @ agent_name self
                 @ '' agent is taking longer than expected. Please try again.'')),
               [GetAgentCard (agent_url self), SendMessage a_card user_input])) \<and>
         sublist ''taking longer than expected''
           (''Error: The '' @ agent_name self
              @ '' agent is taking longer than expected. Please try again.'') \<and>
         send_attempts (snd (send_to_agent py_str self user_input remote)) \<le> 1"
proof -
  have "sublist ''taking longer than expected''
      ((''Error: The '' @ agent_name self @ '' agent is '') @ ''taking longer than expected''
        @ ''. Please try again.'')"
    by (rule sublist_appendI)
  then have mentions: "sublist ''taking longer than expected''
      (''Error: The '' @ agent_name self
         @ '' agent is taking longer than expected. Please try again.'')"
    by simp
  have discovery: "send_to_agent py_str self user_input remote =
      (Inr (JStr (''Error: The '' @ agent_name self
         @ '' agent is taking longer than expected. Please try again.'')),
       [GetAgentCard (agent_url self)])"
    if "get_agent_card remote = Raises e"
    using that assms by (simp add: send_to_agent_def request_reply_def)
  have send: "send_to_agent py_str self user_input remote =
      (Inr (JStr (''Error: The '' @ agent_name self
         @ '' agent is taking longer than expected. Please try again.'')),
       [GetAgentCard (agent_url self), SendMessage a_card user_input])"
    if "get_agent_card remote = Returns a_card" "send_message remote = Raises e"
    using that assms by (simp add: send_to_agent_def request_reply_def)
  from mentions discovery send send_attempts_request_reply show ?thesis
    by blast
qed

text \<open>The theorem at a send that times out after a successful discovery.\<close>

theorem read_timeout_reported_witness:
  "exc_class (PyExc ReadTimeout []) = ReadTimeout \<and>
   get_agent_card send_timeout = Returns order_card \<and>
   send_message send_timeout = Raises (PyExc ReadTimeout []) \<and>
   send_to_agent blank_str order_tool ''Where is ORD1?'' send_timeout =
     (Inr (JStr ''Error: The Order Agent agent is taking longer than expected. Please try again.''),
      [GetAgentCard ''http://X'', SendMessage order_card ''Where is ORD1?''])"
  using read_timeout_reported [of "PyExc ReadTimeout []" send_timeout blank_str order_tool
      "''Where is ORD1?''" order_card]
  by (simp add: send_timeout_def order_tool_def DynamicAgentTool_def)

text \<open>
  Claim C5 as stated fails in two ways. When discovery raises the read timeout, the
  proxy returns the timeout string and has made no send attempt, not one. When the
  send fails with another timeout of the client library (\<^verbatim>\<open>httpx.ConnectTimeout\<close>,
  which line 93 does not name), the generic handler answers, and its string does not
  contain \<^verbatim>\<open>taking longer than expected\<close>.
\<close>

theorem read_timeout_counterexample:
  "fst (send_to_agent blank_str order_tool ''Where is ORD1?'' discovery_timeout) =
     Inr (JStr ''Error: The Order Agent agent is taking longer than expected. Please try again.'') \<and>
   send_attempts (snd (send_to_agent blank_str order_tool ''Where is ORD1?'' discovery_timeout)) = 0 \<and>
   fst (send_to_agent blank_str order_tool ''Where is ORD1?'' connect_timeout) =
     Inr (JStr ''Error connecting to Order Agent agent: All connection attempts failed'') \<and>
   \<not> sublist ''taking longer than expected''
       ''Error connecting to Order Agent agent: All connection attempts failed''"
proof -
  have "\<not> sublist ''taking longer than expected''
       ''Error connecting to Order Agent agent: All connection attempts failed''"
    by code_simp
  then show ?thesis
    by (simp add: send_to_agent_def request_reply_def send_attempts_def discovery_timeout_def
        connect_timeout_def order_tool_def DynamicAgentTool_def)
qed

text \<open>
  What lines 87 to 91 do on the success path (discovery succeeded and the dumped reply
  has no \<^verbatim>\<open>error\<close> member): when the result has a non-empty list of parts whose first
  part carries a text, the proxy returns that text; when there is no result, no parts,
  or an empty list of parts, it returns the string
  \<^verbatim>\<open>Error: Unexpected response format from <agent> agent\<close>.
\<close>

lemma success_envelope_text:
  assumes "get_agent_card remote = Returns a_card"
    and "send_message remote = Returns result"
    and "map_of result ''error'' = None"
  shows "(map_of result ''result'' = Some (JDict res) \<and>
          map_of res ''parts'' = Some (JList (JDict part # rest)) \<and>
          map_of part ''text'' = Some (JStr t) \<longrightarrow>
            fst (send_to_agent py_str self user_input remote) = Inr (JStr t)) \<and>
         (map_of result ''result'' = None \<or>
          map_of result ''result'' = Some (JDict res) \<and>
            (map_of res ''parts'' = None \<or> map_of res ''parts'' = Some (JList [])) \<longrightarrow>
            fst (send_to_agent py_str self user_input remote) =
              Inr (JStr (''Error: Unexpected response format from '' @ agent_name self @ '' agent'')))"
  using assms
  by (auto simp: send_to_agent_def request_reply_def decode_reply_def unexpected_format_def)

text \<open>The lemma at a text reply and at a reply that is a task without parts.\<close>

lemma success_envelope_text_examples:
  "get_agent_card text_reply = Returns order_card \<and>
   fst (send_to_agent blank_str order_tool ''Where is ORD1?'' text_reply) = Inr (JStr ''shipped'') \<and>
   fst (send_to_agent blank_str order_tool ''Where is ORD1?'' task_reply) =
     Inr (JStr ''Error: Unexpected response format from Order Agent agent'')"
  using success_envelope_text [of text_reply order_card
      "[(''jsonrpc'', JStr ''2.0''),
       (''result'', JDict [(''kind'', JStr ''message''),
          (''parts'', JList [JDict [(''kind'', JStr ''text''), (''text'', JStr ''shipped'')]]),
          (''role'', JStr ''agent'')])]"
      "[(''kind'', JStr ''message''),
          (''parts'', JList [JDict [(''kind'', JStr ''text''), (''text'', JStr ''shipped'')]]),
          (''role'', JStr ''agent'')]"
      "[(''kind'', JStr ''text''), (''text'', JStr ''shipped'')]" "[]" "''shipped''"
      blank_str order_tool "''Where is ORD1?''"]
    success_envelope_text [of task_reply order_card
      "[(''jsonrpc'', JStr ''2.0''), (''result'', JDict [(''kind'', JStr ''task''), (''id'', JStr ''t1'')])]"
      "[(''kind'', JStr ''task''), (''id'', JStr ''t1'')]" "[]" "[]" "[]"
      blank_str order_tool "''Where is ORD1?''"]
  by (simp add: text_reply_def task_reply_def order_tool_def DynamicAgentTool_def)

text \<open>
  Claim C6 fails on the code. The reply is a well-formed success envelope whose first
  part is a file part and whose second part is the text \<^verbatim>\<open>see attachment\<close>. Line 88
  reads \<^verbatim>\<open>parts[0]["text"]\<close>, the \<^verbatim>\<open>KeyError\<close> reaches the generic handler, and
  the proxy returns \<^verbatim>\<open>Error connecting to Order Agent agent: 'text'\<close>: neither a text
  of the reply nor the diagnostic \<^verbatim>\<open>Error: Unexpected response format\<close> that the
  \<^verbatim>\<open>else\<close> branch of lines 89 to 91 gives for the replies without a result or parts.
\<close>

theorem first_part_without_text:
  "reply_typed file_reply \<and>
   fst (send_to_agent blank_str order_tool ''Where is ORD1?'' file_reply) =
     Inr (JStr (''Error connecting to Order Agent agent: '' @ squote @ ''text'' @ squote))"
  by (simp add: reply_typed_def first_text_typed_def send_to_agent_def request_reply_def
      decode_reply_def file_reply_def order_tool_def DynamicAgentTool_def)


section \<open>Properties of the two agents\<close>

lemma process_request_empty:
  assumes "\<not> stuck w"
  shows "process_request w [] c connect k =
     (Inl empty_input_error, fst (initialize_plugins connect w), snd (initialize_plugins connect w))"
proof -
  obtain w' boot where init: "initialize_plugins connect w = (w', boot)"
    by force
  have "worker_chat_agent w' = None \<longleftrightarrow> stuck w"
    using initialize_plugins_chat_agent [of connect w] init by simp
  with assms obtain ca where "worker_chat_agent w' = Some ca"
    by auto
  with init show ?thesis
    by (simp add: process_request_def)
qed

lemma initialize_plugins_calls:
  "snd (initialize_plugins connect w) =
     (if plugins_initialized w then [] else map McpConnect (mcp_sse_urls w))"
  by (simp add: initialize_plugins_def Let_def)

text \<open>
  Claim C2, as amended. For every context id, a call with the empty input fails with
  the empty-input error, makes no chat-completion call and leaves the conversation
  store as it was. \<open>orchestrate\<close> makes no network call at all and changes nothing.
  \<open>process_request\<close> runs \<open>initialize_plugins\<close> before it looks at the input: it makes
  no network call when the plugins are initialized already, and otherwise one
  connection attempt for each configured plugin url. (The Worker Agent is taken in a
  state that its own methods produce, that is, not \<open>stuck\<close>.)
\<close>

theorem empty_input_rejected:
  "orchestrate h [] c k = (Inl empty_input_error, h, []) \<and>
   (\<not> stuck w \<longrightarrow>
      returned (process_request w [] c connect k) = Inl empty_input_error \<and>
      history_store (agent_after (process_request w [] c connect k)) = history_store w \<and>
      heap (agent_after (process_request w [] c connect k)) = heap w \<and>
      calls_made (process_request w [] c connect k) =
        (if plugins_initialized w then [] else map McpConnect (mcp_sse_urls w)))"
  by (simp add: orchestrate_def process_request_empty returned_def agent_after_def calls_made_def
      initialize_plugins_calls)

text \<open>The theorem at the example host and at a Worker Agent fresh from its constructor.\<close>

theorem empty_input_rejected_witness:
  "\<not> stuck csv_worker \<and>
   orchestrate order_host [] ''ctx-1'' (Returns ''hello'') = (Inl empty_input_error, order_host, []) \<and>
   returned (process_request csv_worker [] ''ctx-1'' all_connect (Returns ''hello'')) =
     Inl empty_input_error \<and>
   history_store (agent_after (process_request csv_worker [] ''ctx-1'' all_connect (Returns ''hello''))) = []"
  using empty_input_rejected [of order_host "''ctx-1''" "Returns ''hello''" csv_worker all_connect]
  by (simp add: stuck_def csv_worker_def Agent_init_def)

text \<open>
  Claim C2 as stated fails for the Worker Agent: on a Worker Agent fresh from its
  constructor with one plugin url, the call with the empty input connects to that url
  before it fails.
\<close>

theorem empty_input_counterexample:
  "calls_made (process_request csv_worker [] ''ctx-1'' all_connect (Returns ''hello'')) =
     [McpConnect ''http://mcp'']"
  by (simp add: process_request_def initialize_plugins_def calls_made_def csv_worker_def
      Agent_init_def all_connect_def Let_def)

lemma history_messages_record_turn:
  "messages (record_turn x (Raises e) (current s c)) =
     history_messages s c @ [\<lparr> role = ''user'', content = x \<rparr>]"
  by (simp add: record_turn_def add_turn_def current_def history_messages_def fresh_history_def
      split: option.splits)

lemma orchestrate_returned:
  "x \<noteq> [] \<Longrightarrow> returned (orchestrate h x c k) = (case k of Raises e \<Rightarrow> Inl e | Returns reply \<Rightarrow> Inr reply)"
  by (simp add: orchestrate_def returned_def Let_def split: prod.splits outcome.splits)

lemma process_request_returned:
  assumes "\<not> stuck w" "x \<noteq> []"
  shows "returned (process_request w x c connect k) =
     (case k of Raises e \<Rightarrow> Inl e | Returns reply \<Rightarrow> Inr reply)"
proof -
  obtain w' boot where init: "initialize_plugins connect w = (w', boot)"
    by force
  have "worker_chat_agent w' = None \<longleftrightarrow> stuck w"
    using initialize_plugins_chat_agent [of connect w] init by simp
  with assms obtain ca where "worker_chat_agent w' = Some ca"
    by auto
  with init assms(2) show ?thesis
    by (simp add: process_request_def returned_def Let_def split: prod.splits outcome.splits)
qed

text \<open>
  Claim C10. For every non-empty input, when the chat-completion call raises, the
  exception leaves \<open>orchestrate\<close> or \<open>process_request\<close>, and the history of the
  context is the one before the call with the user turn appended and nothing else: one
  message more, no assistant turn, no rollback. The agents are taken in states that
  their own methods produce (\<open>store_ok\<close>, and not \<open>stuck\<close>).
\<close>

theorem failed_completion_keeps_user_turn:
  assumes "store_ok h" and "store_ok w" and "\<not> stuck w" and "x \<noteq> []"
  shows "returned (orchestrate h x c (Raises e)) = Inl e \<and>
         history_messages (agent_after (orchestrate h x c (Raises e))) c =
           history_messages h c @ [\<lparr> role = ''user'', content = x \<rparr>] \<and>
         returned (process_request w x c connect (Raises e)) = Inl e \<and>
         history_messages (agent_after (process_request w x c connect (Raises e))) c =
           history_messages w c @ [\<lparr> role = ''user'', content = x \<rparr>]"
proof -
  have "conversation (agent_after (orchestrate h x c (Raises e))) c =
      Some (record_turn x (Raises e) (current h c))"
    using assms(1,4) by (simp add: orchestrate_own)
  then have host: "history_messages (agent_after (orchestrate h x c (Raises e))) c =
      history_messages h c @ [\<lparr> role = ''user'', content = x \<rparr>]"
    by (simp add: history_messages_def [of "agent_after (orchestrate h x c (Raises e))"]
        history_messages_record_turn)
  have "conversation (agent_after (process_request w x c connect (Raises e))) c =
      Some (record_turn x (Raises e) (current w c))"
    using assms(2,3,4) by (simp add: process_request_own)
  then have worker: "history_messages (agent_after (process_request w x c connect (Raises e))) c =
      history_messages w c @ [\<lparr> role = ''user'', content = x \<rparr>]"
    by (simp add: history_messages_def [of "agent_after (process_request w x c connect (Raises e))"]
        history_messages_record_turn)
  from host worker assms(3,4) show ?thesis
    by (simp add: orchestrate_returned process_request_returned)
qed


lemma order_host_ok: "store_ok order_host"
  by (simp add: store_ok_def order_host_def)

lemma csv_worker_ok: "store_ok csv_worker \<and> \<not> stuck csv_worker"
  by (simp add: store_ok_def stuck_def csv_worker_def Agent_init_def)

text \<open>The theorem at the first turn of a context on the example agents.\<close>

theorem failed_completion_keeps_user_turn_witness:
  "store_ok order_host \<and> store_ok csv_worker \<and> \<not> stuck csv_worker \<and> ''hi'' \<noteq> [] \<and>
   history_messages order_host ''ctx-1'' = [] \<and>
   history_messages (agent_after (orchestrate order_host ''hi'' ''ctx-1''
       (Raises (PyExc (LibraryError ''ServiceResponseException'') ''down'')))) ''ctx-1'' =
     [\<lparr> role = ''user'', content = ''hi'' \<rparr>]"
proof -
  have empty: "history_messages order_host ''ctx-1'' = []"
    by (simp add: history_messages_def conversation_def order_host_def)
  have nonempty: "''hi'' \<noteq> []"
    by simp
  from failed_completion_keeps_user_turn [of order_host csv_worker "''hi'' " "''ctx-1''"
      "PyExc (LibraryError ''ServiceResponseException'') ''down''" all_connect]
    order_host_ok csv_worker_ok empty nonempty
  show ?thesis by simp
qed

text \<open>
  Claim C9. The first access for an unseen context id allocates one conversation, with
  the system message of the agent and no turns, and stores its reference under the
  context id. A second access returns the same reference and changes nothing, and so
  does every access after any run of completed calls to either agent.
\<close>

theorem get_or_create_idempotent:
  "(map_of (history_store s) c = None \<longrightarrow>
      get_or_create c s =
        (length (heap s),
         s\<lparr> heap := heap s @ [\<lparr> history_system_message = system_message s, messages = [] \<rparr>],
            history_store := history_store s @ [(c, length (heap s))] \<rparr>) \<and>
      conversation (snd (get_or_create c s)) c =
        Some \<lparr> history_system_message = system_message s, messages = [] \<rparr>) \<and>
   get_or_create c (snd (get_or_create c s)) = get_or_create c s \<and>
   fst (get_or_create c (orchestrate_all (snd (get_or_create c h)) calls)) = fst (get_or_create c h) \<and>
   fst (get_or_create c (process_all connect (snd (get_or_create c w)) calls)) = fst (get_or_create c w)"
proof -
  have created: "get_or_create c s =
        (length (heap s),
         s\<lparr> heap := heap s @ [\<lparr> history_system_message = system_message s, messages = [] \<rparr>],
            history_store := history_store s @ [(c, length (heap s))] \<rparr>) \<and>
      conversation (snd (get_or_create c s)) c =
        Some \<lparr> history_system_message = system_message s, messages = [] \<rparr>"
    if "map_of (history_store s) c = None"
    using that by (simp del: map_of_append add: unseen_simps conversation_def)
  have again: "get_or_create c (snd (get_or_create c s')) = get_or_create c s'"
    for s' :: "'b agent_core_scheme"
    using get_or_create_ref [of c s']
    by (simp add: get_or_create_seen)
  have "map_of (history_store (orchestrate_all (snd (get_or_create c h)) calls)) c =
      Some (fst (get_or_create c h))"
    by (intro orchestrate_all_keeps get_or_create_ref)
  then have host: "fst (get_or_create c (orchestrate_all (snd (get_or_create c h)) calls)) =
      fst (get_or_create c h)"
    by (simp add: get_or_create_seen)
  have "map_of (history_store (process_all connect (snd (get_or_create c w)) calls)) c =
      Some (fst (get_or_create c w))"
    by (intro process_all_keeps get_or_create_ref)
  then have worker: "fst (get_or_create c (process_all connect (snd (get_or_create c w)) calls)) =
      fst (get_or_create c w)"
    by (simp add: get_or_create_seen)
  from created again [of s] host worker show ?thesis
    by blast
qed

text \<open>The theorem at the first context of the example host.\<close>

theorem get_or_create_idempotent_witness:
  "map_of (history_store order_host) ''ctx-1'' = None \<and>
   fst (get_or_create ''ctx-1'' order_host) = 0 \<and>
   conversation (snd (get_or_create ''ctx-1'' order_host)) ''ctx-1'' =
     Some \<lparr> history_system_message = ''You are Host.'', messages = [] \<rparr> \<and>
   get_or_create ''ctx-1'' (snd (get_or_create ''ctx-1'' order_host)) =
     get_or_create ''ctx-1'' order_host \<and>
   fst (get_or_create ''ctx-1''
     (orchestrate_all (snd (get_or_create ''ctx-1'' order_host)) two_contexts)) = 0"
proof -
  note inst = get_or_create_idempotent [of order_host "''ctx-1''" order_host two_contexts
      all_connect csv_worker]
  have unseen: "map_of (history_store order_host) ''ctx-1'' = None"
    by (simp add: order_host_def)
  have first: "fst (get_or_create ''ctx-1'' order_host) = 0"
    by (simp add: get_or_create_def order_host_def)
  have sys: "system_message order_host = ''You are Host.''"
    by (simp add: order_host_def)
  from inst unseen have created: "conversation (snd (get_or_create ''ctx-1'' order_host)) ''ctx-1'' =
      Some \<lparr> history_system_message = system_message order_host, messages = [] \<rparr>"
    by blast
  from inst have again: "get_or_create ''ctx-1'' (snd (get_or_create ''ctx-1'' order_host)) =
      get_or_create ''ctx-1'' order_host"
    by blast
  from inst have later: "fst (get_or_create ''ctx-1''
      (orchestrate_all (snd (get_or_create ''ctx-1'' order_host)) two_contexts)) =
      fst (get_or_create ''ctx-1'' order_host)"
    by blast
  from unseen first sys created again later show ?thesis
    by simp
qed

text \<open>
  Claim C1. For distinct context ids \<open>a\<close> and \<open>b\<close>, a completed call for \<open>a\<close> leaves
  the conversation of \<open>b\<close> as it was, on either agent. After any run of completed
  calls, in any interleaving of the contexts, the conversation of \<open>b\<close> is the one that
  the calls for \<open>b\<close> alone produce, so no turn of another context is ever in it. The two
  context ids never refer to the same conversation object. The agents start in states
  that their own methods produce (\<open>store_ok\<close>).
\<close>

theorem conversation_isolation:
  assumes "store_ok h" and "store_ok w" and "a \<noteq> b"
  shows "conversation (agent_after (orchestrate h x a k)) b = conversation h b \<and>
         conversation (agent_after (process_request w x a connect k)) b = conversation w b \<and>
         conversation (orchestrate_all h calls) b =
           conversation (orchestrate_all h (for_context b calls)) b \<and>
         conversation (process_all connect w calls) b =
           conversation (process_all connect w (for_context b calls)) b \<and>
         (map_of (history_store (orchestrate_all h calls)) a = None \<or>
          map_of (history_store (orchestrate_all h calls)) a \<noteq>
            map_of (history_store (orchestrate_all h calls)) b) \<and>
         (map_of (history_store (process_all connect w calls)) a = None \<or>
          map_of (history_store (process_all connect w calls)) a \<noteq>
            map_of (history_store (process_all connect w calls)) b)"
proof -
  have host: "conversation (orchestrate_all h calls) b =
      conversation (orchestrate_all h (for_context b calls)) b"
    using assms(1) by (intro orchestrate_all_projection) simp_all
  have worker: "conversation (process_all connect w calls) b =
      conversation (process_all connect w (for_context b calls)) b"
    using assms(2) by (intro process_all_projection) simp_all
  have "store_ok (orchestrate_all h calls)"
    using assms(1) by (rule orchestrate_all_store_ok)
  then have host_refs: "map_of (history_store (orchestrate_all h calls)) a = None \<or>
      map_of (history_store (orchestrate_all h calls)) a \<noteq>
        map_of (history_store (orchestrate_all h calls)) b"
    using assms(3) by (cases "map_of (history_store (orchestrate_all h calls)) a")
      (auto dest: store_ok_inj)
  have "store_ok (process_all connect w calls)"
    using assms(2) by (rule process_all_store_ok)
  then have worker_refs: "map_of (history_store (process_all connect w calls)) a = None \<or>
      map_of (history_store (process_all connect w calls)) a \<noteq>
        map_of (history_store (process_all connect w calls)) b"
    using assms(3) by (cases "map_of (history_store (process_all connect w calls)) a")
      (auto dest: store_ok_inj)
  from assms host worker host_refs worker_refs show ?thesis
    by (simp add: orchestrate_frame process_request_frame)
qed


text \<open>The theorem at a run that interleaves two contexts on the example host.\<close>

theorem conversation_isolation_witness:
  "store_ok order_host \<and> store_ok csv_worker \<and> ''ctx-1'' \<noteq> ''ctx-2'' \<and>
   for_context ''ctx-2'' two_contexts = [(''status?'', ''ctx-2'', Returns ''shipped'')] \<and>
   conversation (orchestrate_all order_host two_contexts) ''ctx-2'' =
     Some \<lparr> history_system_message = ''You are Host.'',
            messages = [\<lparr> role = ''user'', content = ''status?'' \<rparr>,
                        \<lparr> role = ''assistant'', content = ''shipped'' \<rparr>] \<rparr>"
proof -
  have distinct_ids: "''ctx-1'' \<noteq> ''ctx-2''"
    by simp
  have only: "for_context ''ctx-2'' two_contexts = [(''status?'', ''ctx-2'', Returns ''shipped'')]"
    by (simp add: two_contexts_def)
  have fresh: "current order_host ''ctx-2'' =
      \<lparr> history_system_message = ''You are Host.'', messages = [] \<rparr>"
    by (simp add: current_def conversation_def fresh_history_def order_host_def)
  have alone: "conversation (orchestrate_all order_host [(''status?'', ''ctx-2'', Returns ''shipped'')]) ''ctx-2'' =
      Some \<lparr> history_system_message = ''You are Host.'',
             messages = [\<lparr> role = ''user'', content = ''status?'' \<rparr>,
                         \<lparr> role = ''assistant'', content = ''shipped'' \<rparr>] \<rparr>"
    using order_host_ok by (simp add: orchestrate_own fresh record_turn_def add_turn_def)
  from conversation_isolation [of order_host csv_worker "''ctx-1''" "''ctx-2''" "''hi''"
      "Returns ''hello''" all_connect two_contexts] order_host_ok csv_worker_ok distinct_ids
  have "conversation (orchestrate_all order_host two_contexts) ''ctx-2'' =
      conversation (orchestrate_all order_host (for_context ''ctx-2'' two_contexts)) ''ctx-2''"
    by blast
  with only alone order_host_ok csv_worker_ok distinct_ids show ?thesis
    by simp
qed


section \<open>Properties of the tool registry\<close>

lemma special_names [simp]:
  "is_special_name ''__init__''" "is_special_name ''__new__''" "is_special_name ''__setattr__''"
  by (simp_all add: is_special_name_def suffix_to_prefix)

lemma ordinary_name_accepted:
  "\<not> is_special_name f \<Longrightarrow> instantiate_error special f = None"
  by (auto simp: instantiate_error_def)

lemma create_agent_tool_class_accepted:
  "instantiate_error special f = None \<Longrightarrow>
     create_agent_tool_class special n url d f = Inr (DynamicAgentTool n url d f)"
  by (simp add: create_agent_tool_class_def)

text \<open>
  For a function name under which the tool can be created, \<open>add_agent_endpoint\<close>
  keeps the tools the agent holds, appends the new one, and assigns the extended list
  to the plugins of the chat-completion agent.
\<close>

lemma add_agent_endpoint_accepted:
  assumes "instantiate_error special f = None"
  shows "add_agent_endpoint special h url n f d =
     (Inr (),
      h\<lparr> agent_endpoints := agent_endpoints h @
            [[(''url'', url), (''name'', n), (''function_name'', f), (''description'', d)]],
         agent_tools := agent_tools h @ [DynamicAgentTool n url d f],
         chat_agent := (chat_agent h)\<lparr> plugins := agent_tools h @ [DynamicAgentTool n url d f] \<rparr> \<rparr>)"
  using assms
  by (simp add: add_agent_endpoint_def create_agent_tool_class_accepted Let_def)

text \<open>
  Claim C8 fails on the code at the function name \<^verbatim>\<open>__init__\<close>. Line 240 has
  appended the endpoint when line 108 makes the decorated function the constructor of
  the tool class, and \<^verbatim>\<open>tool_class()\<close> at line 249 raises \<^verbatim>\<open>TypeError\<close>. No
  binding is appended and the plugins of the chat-completion agent are the old ones,
  while the endpoint list has grown: the two lists are out of step.
\<close>

theorem add_agent_endpoint_special_name:
  "fst (add_agent_endpoint lenient order_host ''http://Y'' ''SQL Agent'' ''__init__'' ''Runs SQL'') =
     Inl (PyExc TypeError (send_to_agent_qualname
            @ ''() missing 1 required positional argument: '' @ squote @ ''user_input'' @ squote)) \<and>
   agent_tools (snd (add_agent_endpoint lenient order_host ''http://Y'' ''SQL Agent'' ''__init__'' ''Runs SQL'')) =
     [order_tool] \<and>
   plugins (chat_agent (snd (add_agent_endpoint lenient order_host ''http://Y'' ''SQL Agent'' ''__init__'' ''Runs SQL''))) =
     [order_tool] \<and>
   agent_endpoints (snd (add_agent_endpoint lenient order_host ''http://Y'' ''SQL Agent'' ''__init__'' ''Runs SQL'')) =
     [order_endpoint,
      [(''url'', ''http://Y''), (''name'', ''SQL Agent''), (''function_name'', ''__init__''),
       (''description'', ''Runs SQL'')]]"
  by (simp add: add_agent_endpoint_def create_agent_tool_class_def instantiate_error_def
      order_host_def Let_def)

lemma collect_Inr:
  "collect f xs = Inr ys \<longleftrightarrow> list_all2 (\<lambda>x y. f x = Inr y) xs ys"
proof (induction xs arbitrary: ys)
  case Nil
  then show ?case by auto
next
  case (Cons x xs)
  show ?case
  proof (cases "f x")
    case (Inl e)
    then show ?thesis by (auto simp: list_all2_Cons1)
  next
    case (Inr y)
    show ?thesis
    proof (cases "collect f xs")
      case (Inl e)
      with Cons.IH have "\<not> list_all2 (\<lambda>x y. f x = Inr y) xs zs" for zs
        by auto
      with Inl Inr show ?thesis by (auto simp: list_all2_Cons1)
    next
      case (Inr zs)
      with Cons.IH \<open>f x = Inr y\<close> show ?thesis
        by (auto simp: list_all2_Cons1)
    qed
  qed
qed

lemma collect_total:
  assumes "\<forall>x \<in> set xs. \<exists>y. f x = Inr y"
  shows "\<exists>ys. collect f xs = Inr ys"
  using assms by (induction xs) auto

lemma endpoint_tool_described:
  assumes "described special ep"
  shows "\<exists>t. endpoint_tool special ep = Inr t \<and> binds ep t"
  using assms
  by (auto simp: described_def binds_def endpoint_tool_def dict_getitem_def
      create_agent_tool_class_def DynamicAgentTool_def split: option.splits)

lemma endpoint_line_described:
  "described special ep \<Longrightarrow> \<exists>l. endpoint_line ep = Inr l"
  by (auto simp: described_def endpoint_line_def dict_getitem_def split: option.splits)

lemma check_function_names_described:
  "list_all (described special) eps \<Longrightarrow> check_function_names eps = Inr ()"
  by (auto simp: check_function_names_def described_def list_all_iff find_None_iff
      split: option.splits)

lemma send_to_agent_targets:
  "set (snd (send_to_agent py_str t inp remote)) \<subseteq>
     {GetAgentCard (agent_url t)} \<union>
     (case get_agent_card remote of Returns a_card \<Rightarrow> {SendMessage a_card inp} | Raises e \<Rightarrow> {})"
  unfolding send_to_agent_calls
  by (simp add: request_reply_def split: outcome.splits)

lemma send_to_agent_urls:
  "event_url ` set (snd (send_to_agent py_str t inp remote)) \<subseteq>
     {agent_url t} \<union>
     (case get_agent_card remote of Returns a_card \<Rightarrow> {card_url a_card} | Raises e \<Rightarrow> {})"
  unfolding send_to_agent_calls
  by (simp add: request_reply_def split: outcome.splits)

text \<open>
  Claim C7, as amended. For every list of N endpoint descriptors that each contain a
  name, a url and a function name under which the tool can be created (every name not
  of the form \<^verbatim>\<open>__x__\<close> is one), constructing a \<^verbatim>\<open>HostAgent\<close> succeeds and yields
  exactly N tools, which are also the plugins of its chat-completion agent. The i-th
  tool exposes the function name of the i-th descriptor and the description
  \<^verbatim>\<open>Send a request to <name>: <description>\<close> built from it. Its invocation addresses
  discovery to the url of the i-th descriptor and sends only through the client bound
  to the card discovered there, so that every call goes to the descriptor's url or to
  the url that card gives. When the function names of the descriptors are distinct, so
  are the exposed names.
\<close>

theorem tool_bindings_built:
  assumes "list_all (described special) eps"
  shows "\<exists>h. HostAgent_init special n d (Some eps) sm = Inr h \<and>
     length (agent_tools h) = length eps \<and>
     plugins (chat_agent h) = agent_tools h \<and>
     (\<forall>i < length eps.
        binds (eps ! i) (agent_tools h ! i) \<and>
        set (snd (send_to_agent py_str (agent_tools h ! i) inp remote)) \<subseteq>
          {GetAgentCard (dict_get (eps ! i) ''url'' [])} \<union>
          (case get_agent_card remote of
             Returns a_card \<Rightarrow> {SendMessage a_card inp}
           | Raises e \<Rightarrow> {}) \<and>
        event_url ` set (snd (send_to_agent py_str (agent_tools h ! i) inp remote)) \<subseteq>
          {dict_get (eps ! i) ''url'' []} \<union>
          (case get_agent_card remote of
             Returns a_card \<Rightarrow> {card_url a_card}
           | Raises e \<Rightarrow> {})) \<and>
     (distinct (map (\<lambda>ep. map_of ep ''function_name'') eps) \<longrightarrow>
        distinct (map kernel_function_name (agent_tools h)))"
proof -
  from assms have each: "\<forall>ep \<in> set eps. described special ep"
    by (simp add: list_all_iff)
  then have "\<forall>ep \<in> set eps. \<exists>t. endpoint_tool special ep = Inr t"
    using endpoint_tool_described by blast
  then obtain tools where tools: "collect (endpoint_tool special) eps = Inr tools"
    using collect_total by blast
  then have paired: "list_all2 (\<lambda>ep t. endpoint_tool special ep = Inr t) eps tools"
    by (simp add: collect_Inr)
  then have len: "length tools = length eps"
    by (simp add: list_all2_lengthD)
  from each have "\<forall>ep \<in> set eps. \<exists>l. endpoint_line ep = Inr l"
    using endpoint_line_described by blast
  then obtain lines where lines: "collect endpoint_line eps = Inr lines"
    using collect_total by blast
  from assms have checked: "check_function_names eps = Inr ()"
    by (rule check_function_names_described)
  obtain h where h: "HostAgent_init special n d (Some eps) sm = Inr h" "agent_tools h = tools"
      "plugins (chat_agent h) = tools"
    using tools lines checked
    by (cases sm) (simp_all add: HostAgent_init_def default_system_message_def)
  have bound: "binds (eps ! i) (tools ! i)" if "i < length eps" for i
  proof -
    from paired that have "endpoint_tool special (eps ! i) = Inr (tools ! i)"
      by (rule list_all2_nthD)
    moreover from each that have "described special (eps ! i)"
      by simp
    ultimately show ?thesis
      using endpoint_tool_described [of special "eps ! i"] by auto
  qed
  have target: "set (snd (send_to_agent py_str (tools ! i) inp remote)) \<subseteq>
          {GetAgentCard (dict_get (eps ! i) ''url'' [])} \<union>
          (case get_agent_card remote of
             Returns a_card \<Rightarrow> {SendMessage a_card inp}
           | Raises e \<Rightarrow> {})" if "i < length eps" for i
  proof -
    from bound [OF that] have "dict_get (eps ! i) ''url'' [] = agent_url (tools ! i)"
      by (simp add: binds_def dict_get_def)
    then show ?thesis
      using send_to_agent_targets [of py_str "tools ! i" inp remote] by simp
  qed
  have urls: "event_url ` set (snd (send_to_agent py_str (tools ! i) inp remote)) \<subseteq>
          {dict_get (eps ! i) ''url'' []} \<union>
          (case get_agent_card remote of
             Returns a_card \<Rightarrow> {card_url a_card}
           | Raises e \<Rightarrow> {})" if "i < length eps" for i
  proof -
    from bound [OF that] have "dict_get (eps ! i) ''url'' [] = agent_url (tools ! i)"
      by (simp add: binds_def dict_get_def)
    then show ?thesis
      using send_to_agent_urls [of py_str "tools ! i" inp remote] by simp
  qed
  have names: "distinct (map kernel_function_name tools)"
    if dist: "distinct (map (\<lambda>ep. map_of ep ''function_name'') eps)"
  proof -
    have "map (\<lambda>ep. map_of ep ''function_name'') eps = map (\<lambda>t. Some (kernel_function_name t)) tools"
      using len bound by (intro nth_equalityI) (simp_all add: binds_def)
    with dist have "distinct (map Some (map kernel_function_name tools))"
      by (simp add: comp_def)
    then show ?thesis
      using distinct_map [of Some "map kernel_function_name tools"] by blast
  qed
  from h len bound target urls names show ?thesis
    by auto
qed

lemma two_endpoints_made:
  "HostAgent_init lenient ''Host'' ''Coordinates'' (Some [order_endpoint, sql_endpoint])
     (Some ''You are Host.'') =
   Inr (order_host\<lparr> agent_endpoints := [order_endpoint, sql_endpoint],
          agent_tools := [order_tool, sql_tool],
          chat_agent := \<lparr> completion_name = ''Host'', plugins = [order_tool, sql_tool] \<rparr> \<rparr>)"
  by (simp add: HostAgent_init_def check_function_names_def endpoint_tool_def dict_getitem_def
      dict_get_def create_agent_tool_class_def instantiate_error_def is_special_name_def
      order_endpoint_def sql_endpoint_def order_host_def order_tool_def sql_tool_def
      sanitize_id_def is_alnum_def)

text \<open>The theorem at a list of two endpoints, the second without a description.\<close>

theorem tool_bindings_built_witness:
  "list_all (described lenient) [order_endpoint, sql_endpoint] \<and>
   tools_of (HostAgent_init lenient ''Host'' ''Coordinates'' (Some [order_endpoint, sql_endpoint])
     (Some ''You are Host.'')) = [order_tool, sql_tool] \<and>
   binds order_endpoint order_tool \<and> binds sql_endpoint sql_tool \<and>
   distinct (map kernel_function_name [order_tool, sql_tool])"
proof -
  have ok: "list_all (described lenient) [order_endpoint, sql_endpoint]"
    by (simp add: described_def instantiate_error_def is_special_name_def order_endpoint_def
        sql_endpoint_def)
  have dist: "distinct (map (\<lambda>ep. map_of ep ''function_name'') [order_endpoint, sql_endpoint])"
    by (simp add: order_endpoint_def sql_endpoint_def)
  from tool_bindings_built [OF ok, of "''Host''" "''Coordinates''" "Some ''You are Host.''"
      blank_str "''hi''" text_reply]
  obtain h where h: "HostAgent_init lenient ''Host'' ''Coordinates'' (Some [order_endpoint, sql_endpoint])
        (Some ''You are Host.'') = Inr h"
    and bound: "\<forall>i < length [order_endpoint, sql_endpoint].
        binds ([order_endpoint, sql_endpoint] ! i) (agent_tools h ! i)"
    and names: "distinct (map (\<lambda>ep. map_of ep ''function_name'') [order_endpoint, sql_endpoint]) \<longrightarrow>
        distinct (map kernel_function_name (agent_tools h))"
    by blast
  from h have tools: "agent_tools h = [order_tool, sql_tool]"
    by (auto simp: two_endpoints_made)
  from bound tools have "binds order_endpoint order_tool" "binds sql_endpoint sql_tool"
    by (auto simp: nth_Cons' dest: spec [of _ 0] spec [of _ 1])
  with ok names dist tools show ?thesis
    by (simp add: tools_of_def two_endpoints_made)
qed

text \<open>
  Claim C7 as stated fails in each point that the amendment changes. The exposed
  description of the Order Agent's tool is \<^verbatim>\<open>Send a request to Order Agent: Tracks orders\<close>,
  not the descriptor's \<^verbatim>\<open>Tracks orders\<close>. A descriptor with a function name and without
  a url makes the constructor raise \<^verbatim>\<open>KeyError\<close>, and one with the function name
  \<^verbatim>\<open>__init__\<close> makes it raise \<^verbatim>\<open>TypeError\<close>: no binding is produced. And when the
  card discovered at the descriptor's url gives another url, the message is sent there.
\<close>

theorem tool_bindings_counterexample:
  "tools_of (HostAgent_init lenient ''Host'' ''Coordinates'' (Some [order_endpoint, sql_endpoint])
     (Some ''You are Host.'')) = [order_tool, sql_tool] \<and>
   dict_get order_endpoint ''description'' [] = ''Tracks orders'' \<and>
   kernel_function_description order_tool = ''Send a request to Order Agent: Tracks orders'' \<and>
   HostAgent_init lenient ''Host'' ''Coordinates'' (Some [no_url_endpoint]) (Some ''You are Host.'') =
     Inl (PyExc KeyError (squote @ ''url'' @ squote)) \<and>
   HostAgent_init lenient ''Host'' ''Coordinates'' (Some [init_endpoint]) (Some ''You are Host.'') =
     Inl (PyExc TypeError (send_to_agent_qualname
            @ ''() missing 1 required positional argument: '' @ squote @ ''user_input'' @ squote)) \<and>
   map event_url (snd (send_to_agent blank_str order_tool ''Where is ORD1?'' moved_reply)) =
     [''http://X'', ''http://elsewhere/'']"
proof -
  have missing: "HostAgent_init lenient ''Host'' ''Coordinates'' (Some [no_url_endpoint])
      (Some ''You are Host.'') = Inl (PyExc KeyError (squote @ ''url'' @ squote))"
    by (simp add: HostAgent_init_def check_function_names_def endpoint_tool_def dict_getitem_def
        no_url_endpoint_def)
  have special: "HostAgent_init lenient ''Host'' ''Coordinates'' (Some [init_endpoint])
      (Some ''You are Host.'') =
      Inl (PyExc TypeError (send_to_agent_qualname
            @ ''() missing 1 required positional argument: '' @ squote @ ''user_input'' @ squote))"
    by (simp add: HostAgent_init_def check_function_names_def endpoint_tool_def dict_getitem_def
        dict_get_def create_agent_tool_class_def instantiate_error_def init_endpoint_def)
  have moved: "map event_url (snd (send_to_agent blank_str order_tool ''Where is ORD1?'' moved_reply)) =
      [''http://X'', ''http://elsewhere/'']"
    by (simp add: send_to_agent_calls request_reply_def moved_reply_def order_tool_def
        DynamicAgentTool_def)
  have wrapped: "dict_get order_endpoint ''description'' [] = ''Tracks orders''"
      "kernel_function_description order_tool = ''Send a request to Order Agent: Tracks orders''"
    by (simp_all add: dict_get_def order_endpoint_def order_tool_def DynamicAgentTool_def)
  from missing special moved wrapped show ?thesis
    by (simp add: tools_of_def two_endpoints_made)
qed

end
